theory Spec2Isabelle
  imports Complex_Main
begin

section \<open>Data model of the route service\<close>

text \<open>
  A JavaScript number that the service computes from the provider's answer is a real
  number or \<^verbatim>\<open>NaN\<close>. A segment field of the answer is a number or is missing; reading
  a missing field gives \<^verbatim>\<open>undefined\<close>, which turns the sum over the segments into
  \<^verbatim>\<open>NaN\<close>, so a missing field is \<^verbatim>\<open>NaN\<close> here. Arithmetic passes \<^verbatim>\<open>NaN\<close> on
  and every comparison with \<^verbatim>\<open>NaN\<close> is false. Floating-point rounding, the infinities
  and segment fields of other JSON types are not modelled.
\<close>

datatype number = Num real | NaN

fun numAdd :: "number \<Rightarrow> number \<Rightarrow> number" where
  "numAdd (Num a) (Num b) = Num (a + b)"
| "numAdd x y = NaN"

fun numOver :: "number \<Rightarrow> real \<Rightarrow> number" where
  "numOver (Num a) c = Num (a / c)"
| "numOver NaN c = NaN"

fun numTimes :: "number \<Rightarrow> real \<Rightarrow> number" where
  "numTimes (Num a) c = Num (a * c)"
| "numTimes NaN c = NaN"

fun numLt :: "number \<Rightarrow> real \<Rightarrow> bool" where
  "numLt (Num a) c = (a < c)"
| "numLt NaN c = False"

fun numGt :: "number \<Rightarrow> real \<Rightarrow> bool" where
  "numGt (Num a) c = (a > c)"
| "numGt NaN c = False"

fun numLe :: "number \<Rightarrow> real \<Rightarrow> bool" where
  "numLe (Num a) c = (a \<le> c)"
| "numLe NaN c = False"

fun numGe :: "number \<Rightarrow> real \<Rightarrow> bool" where
  "numGe (Num a) c = (a \<ge> c)"
| "numGe NaN c = False"

text \<open>\<^verbatim>\<open>x || 0\<close> on a number: \<^verbatim>\<open>NaN\<close> and 0 are falsy.\<close>

fun orZero :: "number \<Rightarrow> number" where
  "orZero (Num a) = Num a"
| "orZero NaN = Num 0"

text \<open>
  A coordinate sent to OpenRouteService is the array \<^verbatim>\<open>[lng, lat]\<close>; a point of a
  route object is \<^verbatim>\<open>{lat, lng}\<close>. Coordinates are real numbers. A JavaScript string
  (the country and city names) is the list of its UTF-16 code units; profile names and
  messages are plain strings.
\<close>

type_synonym coord = "real \<times> real"

type_synonym js_string = "nat list"

record latlng =
  lat :: real
  lng :: real

record segment =
  seg_distance :: number
  seg_duration :: number
  seg_elevation_gain :: number

text \<open>
  One feature of a GeoJSON answer: \<^verbatim>\<open>properties.segments\<close>,
  \<^verbatim>\<open>properties.summary.duration\<close> (when present) and \<^verbatim>\<open>geometry.coordinates\<close>.
  A missing or empty \<^verbatim>\<open>features\<close> array is the empty list.
\<close>

record feature =
  segments :: "segment list"
  summary_duration :: "number option"
  coordinates :: "coord list"

record response =
  features :: "feature list"

text \<open>
  What one HTTP request to the provider gives: the response body, or a rejection carrying
  \<^verbatim>\<open>error.response?.status\<close> (\<open>None\<close> for a network error or a timeout).
\<close>

datatype net_outcome = Resolved response | Rejected "nat option"

text \<open>Every \<^verbatim>\<open>throw\<close> of the modelled code is a value of this type.\<close>

datatype error =
    ApiKeyNotConfigured
  | PointsTooFarApart
  | InvalidCoordinates nat
  | CoordinatesTooCloseToZero nat
  | InvalidRequestParameters
  | ProfileNotFound string
  | AuthenticationError nat
  | FailedToCallOpenRouteService nat
  | TypeError
  | FailedToGenerateAcceptableRoute nat
  | CyclingRouteFailedAfter nat
  | CyclingRouteFailed error
  | InvalidResponseStructure
  | FailedToProcessCyclingRoute error
  | NoRouteFound
  | BestPossibleRouteIs number
  | ShortestPossibleRouteIs number
  | UnableToDetermineCity
  | CouldNotFindCoordinates
  | CouldNotFindStartingCity
  | FailedToGeocodeLocation

text \<open>
  \<^verbatim>\<open>apiError.response?.status\<close> as the retry loops read it. Every error that leaves
  \<^verbatim>\<open>callOpenRouteService\<close> is built with \<^verbatim>\<open>new Error(...)\<close> (the axios error is
  caught inside and never rethrown), and a runtime TypeError has no such property either,
  so the property is undefined on each of them.
\<close>

fun response_status :: "error \<Rightarrow> nat option" where
  "response_status e = None"

fun message_includes_profile_not_found :: "error \<Rightarrow> bool" where
  "message_includes_profile_not_found (ProfileNotFound p) = True"
| "message_includes_profile_not_found e = False"

datatype geocoded = GeocodeThrows | GeocodeNull | Geocoded latlng

text \<open>
  The collaborators of the service: the configured API key, the provider (an answer for the
  \<open>k\<close>-th HTTP request of a run, which may depend on the profile and the coordinates sent),
  the draws of \<^verbatim>\<open>Math.random()\<close> in program order, the geocoding service and the
  capital-city lookup (\<open>None\<close> when it throws).
\<close>

record env =
  apiKey :: bool
  net :: "nat \<Rightarrow> string \<Rightarrow> coord list \<Rightarrow> net_outcome"
  random :: "nat \<Rightarrow> real"
  geocodeLocation :: "js_string \<Rightarrow> js_string \<Rightarrow> geocoded"
  getCapitalCity :: "js_string \<Rightarrow> js_string option"

section \<open>callOpenRouteService\<close>

text \<open>
  \<^verbatim>\<open>makeRateLimitedRequest\<close> (rateLimiter.js): one request; on a 429 the request function
  is called once more and that second outcome is the result. The waits are not modelled.
  The counter of HTTP requests is threaded through.
\<close>

definition makeRateLimitedRequest ::
  "env \<Rightarrow> nat \<Rightarrow> string \<Rightarrow> coord list \<Rightarrow> net_outcome \<times> nat" where
  "makeRateLimitedRequest E k profile cs =
     (case net E k profile cs of
        Rejected (Some status) \<Rightarrow>
          if status = 429 then (net E (Suc k) profile cs, Suc (Suc k))
          else (Rejected (Some status), Suc k)
      | out \<Rightarrow> (out, Suc k))"

text \<open>The straight-line check: only \<^verbatim>\<open>coordinates[0]\<close> and \<^verbatim>\<open>coordinates[1]\<close> are read.\<close>

definition pointsTooFarApart :: "coord list \<Rightarrow> bool" where
  "pointsTooFarApart cs =
     (case cs of
        (lng1, lat1) # (lng2, lat2) # rest \<Rightarrow>
          sqrt ((lat2 - lat1)\<^sup>2 + (lng2 - lng1)\<^sup>2) * 111 > 80
      | _ \<Rightarrow> False)"

fun validateCoordinates :: "nat \<Rightarrow> coord list \<Rightarrow> error option" where
  "validateCoordinates i [] = None"
| "validateCoordinates i ((lngi, lati) # cs) =
     (if lati < - 90 \<or> lati > 90 \<or> lngi < - 180 \<or> lngi > 180
      then Some (InvalidCoordinates i)
      else if \<bar>lati\<bar> < 0.1 \<and> \<bar>lngi\<bar> < 0.1 then Some (CoordinatesTooCloseToZero i)
      else validateCoordinates (Suc i) cs)"

text \<open>
  The \<^verbatim>\<open>while (attempt <= maxRetries)\<close> loop: a success returns the body; a 400, 404,
  401 or 403 throws at once; anything else counts the attempt and tries again.
\<close>

function requestLoop ::
  "env \<Rightarrow> string \<Rightarrow> coord list \<Rightarrow> nat \<Rightarrow> nat \<Rightarrow> nat \<Rightarrow> (error + response) \<times> nat" where
  "requestLoop E profile cs maxRetries attempt k =
     (if attempt \<le> maxRetries then
        (case makeRateLimitedRequest E k profile cs of
           (Resolved data, k') \<Rightarrow> (Inr data, k')
         | (Rejected (Some status), k') \<Rightarrow>
             if status = 400 then (Inl InvalidRequestParameters, k')
             else if status = 404 then (Inl (ProfileNotFound profile), k')
             else if status = 401 \<or> status = 403 then (Inl (AuthenticationError status), k')
             else requestLoop E profile cs maxRetries (Suc attempt) k'
         | (Rejected None, k') \<Rightarrow> requestLoop E profile cs maxRetries (Suc attempt) k')
      else (Inl (FailedToCallOpenRouteService (maxRetries + 1)), k))"
  by pat_completeness auto
termination
  by (relation "measure (\<lambda>(E, profile, cs, maxRetries, attempt, k). Suc maxRetries - attempt)") auto

definition callOpenRouteService ::
  "env \<Rightarrow> nat \<Rightarrow> coord list \<Rightarrow> string \<Rightarrow> nat \<Rightarrow> (error + response) \<times> nat" where
  "callOpenRouteService E k cs profile maxRetries =
     (if \<not> apiKey E then (Inl ApiKeyNotConfigured, k)
      else if pointsTooFarApart cs then (Inl PointsTooFarApart, k)
      else (case validateCoordinates 0 cs of
              Some e \<Rightarrow> (Inl e, k)
            | None \<Rightarrow> requestLoop E profile cs maxRetries 0 k))"

declare requestLoop.simps [simp del]

section \<open>Walking: the ring of waypoints and the retry loop\<close>

text \<open>
  The constructor of the circular waypoint list. The service has the same loop three
  times (the seed in \<^verbatim>\<open>generateWalkingRoute\<close>, and the two regenerations in
  \<^verbatim>\<open>validateAndRetryRoute\<close>, with \<^verbatim>\<open>newRadiusDeg\<close>); they differ in the radius only.
  Reading \<^verbatim>\<open>waypoints[0][0]\<close> of an empty array is a TypeError.
\<close>

definition ringPoint :: "real \<Rightarrow> real \<Rightarrow> real \<Rightarrow> nat \<Rightarrow> nat \<Rightarrow> coord" where
  "ringPoint centerLat centerLng radiusDeg numPoints i =
     (let angle = (2 * pi * real i) / real numPoints
      in (centerLng + radiusDeg * sin angle, centerLat + radiusDeg * cos angle))"

definition ringWaypoints :: "real \<Rightarrow> real \<Rightarrow> real \<Rightarrow> nat \<Rightarrow> error + coord list" where
  "ringWaypoints centerLat centerLng radiusDeg numPoints =
     (let waypoints = map (ringPoint centerLat centerLng radiusDeg numPoints) [0..<numPoints]
      in case waypoints of
           [] \<Rightarrow> Inl TypeError
         | first # rest \<Rightarrow> Inr (waypoints @ [first]))"

definition baseRadiusKm :: "real \<Rightarrow> real" where
  "baseRadiusKm targetDistance = max (targetDistance / (2 * pi * 3)) 0.5"

definition numPoints :: "real \<Rightarrow> nat" where
  "numPoints targetDistance = nat (min (max 6 \<lfloor>targetDistance * 1.2\<rfloor>) 10)"

definition walkingWaypoints :: "real \<Rightarrow> real \<Rightarrow> real \<Rightarrow> error + coord list" where
  "walkingWaypoints centerLat centerLng targetDistance =
     ringWaypoints centerLat centerLng (baseRadiusKm targetDistance / 111)
       (numPoints targetDistance)"

text \<open>
  The mutable variables of a retry loop, with two observers added: the number of HTTP
  requests made so far, and the log of the calls of \<^verbatim>\<open>callOpenRouteService\<close> (one entry
  per iteration of the loop: the profile and the waypoints it was called with).
\<close>

record loop_state =
  currentWaypoints :: "coord list"
  currentRadius :: real
  currentProfile :: string
  httpRequests :: nat
  attemptLog :: "(string \<times> coord list) list"

datatype 'r step = Return "error + 'r" loop_state | Next loop_state

text \<open>
  The three \<^verbatim>\<open>segments.reduce((sum, segment) => sum + ..., 0)\<close> of the service; the
  elevation one adds \<^verbatim>\<open>segment.elevation_gain || 0\<close>.
\<close>

definition sumDistance :: "segment list \<Rightarrow> number" where
  "sumDistance segs = foldl (\<lambda>sum s. numAdd sum (seg_distance s)) (Num 0) segs"

definition sumDuration :: "segment list \<Rightarrow> number" where
  "sumDuration segs = foldl (\<lambda>sum s. numAdd sum (seg_duration s)) (Num 0) segs"

definition sumElevation :: "segment list \<Rightarrow> number" where
  "sumElevation segs = foldl (\<lambda>sum s. numAdd sum (orZero (seg_elevation_gain s))) (Num 0) segs"

text \<open>\<^verbatim>\<open>response.features[0]\<close>, whose properties are read next: a TypeError when absent.\<close>

definition firstFeature :: "response \<Rightarrow> error + feature" where
  "firstFeature r = (case features r of [] \<Rightarrow> Inl TypeError | f # fs \<Rightarrow> Inr f)"

definition logAttempt :: "loop_state \<Rightarrow> nat \<Rightarrow> loop_state" where
  "logAttempt st k' =
     st\<lparr>httpRequests := k',
        attemptLog := attemptLog st @ [(currentProfile st, currentWaypoints st)]\<rparr>"

text \<open>
  The \<^verbatim>\<open>try\<close> block of \<^verbatim>\<open>validateAndRetryRoute\<close> after the provider has answered.
  \<open>Inl\<close> is an exception thrown inside the block, with the state at the throw.
\<close>

definition walkingTry ::
  "real \<Rightarrow> real \<Rightarrow> nat \<Rightarrow> response \<Rightarrow> loop_state \<Rightarrow> (error \<times> loop_state) + response step" where
  "walkingTry centerLat centerLng n tempResponse st =
     (case firstFeature tempResponse of
        Inl e \<Rightarrow> Inl (e, st)
      | Inr f \<Rightarrow>
          let tempDistance = numOver (sumDistance (segments f)) 1000 in
          if numGe tempDistance 5 \<and> numLe tempDistance 15 then Inr (Return (Inr tempResponse) st)
          else if numGt tempDistance 15 then
            (let st' = st\<lparr>currentRadius := currentRadius st * 0.8\<rparr> in
             case ringWaypoints centerLat centerLng (currentRadius st' / 111) n of
               Inl e \<Rightarrow> Inl (e, st')
             | Inr newWaypoints \<Rightarrow> Inr (Next (st'\<lparr>currentWaypoints := newWaypoints\<rparr>)))
          else if numLt tempDistance 5 then
            (let st' = st\<lparr>currentRadius := currentRadius st * 1.3\<rparr> in
             case ringWaypoints centerLat centerLng (currentRadius st' / 111) n of
               Inl e \<Rightarrow> Inl (e, st')
             | Inr newWaypoints \<Rightarrow> Inr (Next (st'\<lparr>currentWaypoints := newWaypoints\<rparr>)))
          else Inr (Return (Inr tempResponse) st))"

definition walkingCatch :: "nat \<Rightarrow> nat \<Rightarrow> error \<Rightarrow> loop_state \<Rightarrow> response step" where
  "walkingCatch maxRetries attempt apiError st =
     (if int attempt = int maxRetries - 1 then Return (Inl apiError) st else Next st)"

definition walkingBody ::
  "env \<Rightarrow> real \<Rightarrow> real \<Rightarrow> nat \<Rightarrow> nat \<Rightarrow> nat \<Rightarrow> loop_state \<Rightarrow> response step" where
  "walkingBody E centerLat centerLng n maxRetries attempt st =
     (case callOpenRouteService E (httpRequests st) (currentWaypoints st) ''foot-walking'' 2 of
        (Inl apiError, k') \<Rightarrow> walkingCatch maxRetries attempt apiError (logAttempt st k')
      | (Inr tempResponse, k') \<Rightarrow>
          (case walkingTry centerLat centerLng n tempResponse (logAttempt st k') of
             Inl (apiError, st') \<Rightarrow> walkingCatch maxRetries attempt apiError st'
           | Inr s \<Rightarrow> s))"

function walkingLoop ::
  "env \<Rightarrow> real \<Rightarrow> real \<Rightarrow> nat \<Rightarrow> nat \<Rightarrow> nat \<Rightarrow> loop_state \<Rightarrow> (error + response) \<times> loop_state" where
  "walkingLoop E centerLat centerLng n maxRetries attempt st =
     (if attempt < maxRetries then
        (case walkingBody E centerLat centerLng n maxRetries attempt st of
           Return r st' \<Rightarrow> (r, st')
         | Next st' \<Rightarrow> walkingLoop E centerLat centerLng n maxRetries (Suc attempt) st')
      else (Inl (FailedToGenerateAcceptableRoute maxRetries), st))"
  by pat_completeness auto
termination
  by (relation "measure (\<lambda>(E, centerLat, centerLng, n, maxRetries, attempt, st). maxRetries - attempt)")
    auto

declare walkingLoop.simps [simp del]

text \<open>
  \<^verbatim>\<open>validateAndRetryRoute(initialWaypoints, targetDist, maxRetries)\<close>. The variables it
  closes over (the center, \<^verbatim>\<open>baseRadiusKm\<close>, \<^verbatim>\<open>numPoints\<close>) are parameters here, with the
  number of HTTP requests made before the call. \<^verbatim>\<open>targetDist\<close> is only passed on to
  \<^verbatim>\<open>callOpenRouteService\<close>, which does not read it.
\<close>

definition validateAndRetryRoute ::
  "env \<Rightarrow> real \<Rightarrow> real \<Rightarrow> real \<Rightarrow> nat \<Rightarrow> nat \<Rightarrow> coord list \<Rightarrow> nat
     \<Rightarrow> (error + response) \<times> loop_state" where
  "validateAndRetryRoute E centerLat centerLng radiusKm n k initialWaypoints maxRetries =
     walkingLoop E centerLat centerLng n maxRetries 0
       \<lparr>currentWaypoints = initialWaypoints, currentRadius = radiusKm,
        currentProfile = ''foot-walking'', httpRequests = k, attemptLog = []\<rparr>"

section \<open>The route object and generateWalkingRoute\<close>

record day_detail =
  day :: nat
  day_distance :: number
  day_duration :: number
  day_startPoint :: latlng
  day_endPoint :: latlng
  day_path :: "latlng list"

text \<open>
  The fields of the returned route that depend on the search. \<open>debugResponses\<close> is
  \<^verbatim>\<open>metadata.debug\<close>: the raw response of a walking route, the two day responses of a
  cycling route. The constant fields, the instruction texts and the provider's own
  waypoint list are left out.
\<close>

record route =
  distance :: number
  estimatedDuration :: number
  path :: "latlng list"
  startPoint :: latlng
  endPoint :: latlng
  elevationGain :: number
  routeType :: string
  isMultiDay :: bool
  dayDetails :: "day_detail list"
  debugResponses :: "response list"

definition toLatLng :: "coord \<Rightarrow> latlng" where
  "toLatLng c = \<lparr>lat = snd c, lng = fst c\<rparr>"

text \<open>
  \<^verbatim>\<open>!city || city.trim() === ''\<close>. \<^verbatim>\<open>String.prototype.trim\<close> strips the white space
  and line terminator code units of ECMAScript from both ends, so the trimmed string is
  empty exactly when every code unit is one of them. A missing city is the empty string.
\<close>

definition isWhiteSpace :: "nat \<Rightarrow> bool" where
  "isWhiteSpace c =
     (c \<in> set [0x0009, 0x000A, 0x000B, 0x000C, 0x000D, 0x0020, 0x00A0, 0x1680,
                0x2000, 0x2001, 0x2002, 0x2003, 0x2004, 0x2005, 0x2006, 0x2007, 0x2008,
                0x2009, 0x200A, 0x2028, 0x2029, 0x202F, 0x205F, 0x3000, 0xFEFF])"

definition noCity :: "js_string \<Rightarrow> bool" where
  "noCity city = (city = [] \<or> dropWhile isWhiteSpace city = [])"

definition resolveCity :: "env \<Rightarrow> js_string \<Rightarrow> js_string \<Rightarrow> error + js_string" where
  "resolveCity E country city =
     (if noCity city then
        (case getCapitalCity E country of None \<Rightarrow> Inl UnableToDetermineCity | Some c \<Rightarrow> Inr c)
      else Inr city)"

text \<open>
  The final validation of \<^verbatim>\<open>generateWalkingRoute\<close>: two branches throw, two only log
  (the ideal band, and the settle-for band).
\<close>

datatype verdict = Ideal | SettledFor

definition finalValidation :: "number \<Rightarrow> error + verdict" where
  "finalValidation finalDistanceKm =
     (if numLt finalDistanceKm 3 then Inl (BestPossibleRouteIs finalDistanceKm)
      else if numGt finalDistanceKm 20 then Inl (ShortestPossibleRouteIs finalDistanceKm)
      else if numGe finalDistanceKm 5 \<and> numLe finalDistanceKm 15 then Inr Ideal
      else Inr SettledFor)"

text \<open>
  The duration in minutes, with the fallback when it is 0 or \<^verbatim>\<open>NaN\<close>: the summary
  duration when that is present and truthy, else 12 minutes per kilometre.
\<close>

definition walkingDuration :: "feature \<Rightarrow> number \<Rightarrow> number" where
  "walkingDuration f finalDistanceKm =
     (let estimatedDurationMinutes = numOver (sumDuration (segments f)) 60 in
      if estimatedDurationMinutes = Num 0 \<or> estimatedDurationMinutes = NaN then
        (case summary_duration f of
           Some (Num d) \<Rightarrow> if d \<noteq> 0 then Num (d / 60) else numTimes finalDistanceKm 12
         | _ \<Rightarrow> numTimes finalDistanceKm 12)
      else estimatedDurationMinutes)"

text \<open>The part of \<^verbatim>\<open>generateWalkingRoute\<close> after the retry loop has returned a response.\<close>

definition walkingRouteOf :: "response \<Rightarrow> error + route" where
  "walkingRouteOf r =
     (case features r of
        [] \<Rightarrow> Inl NoRouteFound
      | f # fs \<Rightarrow>
          let finalDistanceKm = numOver (sumDistance (segments f)) 1000 in
          (case finalValidation finalDistanceKm of
             Inl e \<Rightarrow> Inl e
           | Inr v \<Rightarrow>
               (case coordinates f of
                  [] \<Rightarrow> Inl TypeError
                | c # cs \<Rightarrow>
                    Inr \<lparr>distance = finalDistanceKm,
                         estimatedDuration = walkingDuration f finalDistanceKm,
                         path = map toLatLng (coordinates f),
                         startPoint = toLatLng c,
                         endPoint = toLatLng (last (c # cs)),
                         elevationGain = sumElevation (segments f),
                         routeType = ''walking'',
                         isMultiDay = False,
                         dayDetails = [],
                         debugResponses = [r]\<rparr>)))"

definition generateWalkingRoute ::
  "env \<Rightarrow> js_string \<Rightarrow> js_string \<Rightarrow> error + route" where
  "generateWalkingRoute E country city =
     (let targetDistance = 10 in
      case resolveCity E country city of
        Inl e \<Rightarrow> Inl e
      | Inr city' \<Rightarrow>
          (case geocodeLocation E country city' of
             GeocodeThrows \<Rightarrow> Inl FailedToGeocodeLocation
           | GeocodeNull \<Rightarrow> Inl CouldNotFindCoordinates
           | Geocoded center \<Rightarrow>
               (case walkingWaypoints (lat center) (lng center) targetDistance of
                  Inl e \<Rightarrow> Inl e
                | Inr waypoints \<Rightarrow>
                    (case fst (validateAndRetryRoute E (lat center) (lng center)
                                 (baseRadiusKm targetDistance) (numPoints targetDistance)
                                 0 waypoints 8) of
                       Inl e \<Rightarrow> Inl e
                     | Inr r \<Rightarrow> walkingRouteOf r))))"

section \<open>Cycling: the per-day retry loop and generateCyclingRoute\<close>

definition cyclingProfiles :: "string list" where
  "cyclingProfiles = [''cycling-road'', ''cycling-regular'']"

text \<open>\<^verbatim>\<open>Array.prototype.indexOf\<close>: the first index, or -1.\<close>

fun indexOf :: "string list \<Rightarrow> string \<Rightarrow> int" where
  "indexOf [] x = - 1"
| "indexOf (y # ys) x =
     (if y = x then 0 else (let i = indexOf ys x in if i < 0 then - 1 else i + 1))"

text \<open>
  The two coordinate adjustments of the \<^verbatim>\<open>try\<close> block: the end point is moved along the
  line from the start point, by the factor 2 or 0.6. Destructuring fewer than two
  waypoints leaves \<^verbatim>\<open>endCoord\<close> undefined, and reading \<^verbatim>\<open>endCoord[1]\<close> throws.
\<close>

definition stretchEnd :: "real \<Rightarrow> coord list \<Rightarrow> error + coord list" where
  "stretchEnd factor ws =
     (case ws of
        startCoord # endCoord # rest \<Rightarrow>
          (let latDiff = snd endCoord - snd startCoord;
               lngDiff = fst endCoord - fst startCoord
           in Inr (ws[1 := (fst startCoord + lngDiff * factor, snd startCoord + latDiff * factor)]))
      | _ \<Rightarrow> Inl TypeError)"

definition cyclingTry ::
  "nat \<Rightarrow> response \<Rightarrow> loop_state \<Rightarrow> (error \<times> loop_state) + (response \<times> number) step" where
  "cyclingTry attempt r st =
     (case firstFeature r of
        Inl e \<Rightarrow> Inl (e, st)
      | Inr f \<Rightarrow>
          let actualDistance = numOver (sumDistance (segments f)) 1000 in
          if numGe actualDistance 5 \<and> numLe actualDistance 60
          then Inr (Return (Inr (r, actualDistance)) st)
          else if numLt actualDistance 5 \<and> attempt < 3 then
            (case stretchEnd 2 (currentWaypoints st) of
               Inl e \<Rightarrow> Inl (e, st)
             | Inr ws \<Rightarrow> Inr (Next (st\<lparr>currentWaypoints := ws\<rparr>)))
          else if numGt actualDistance 60 \<and> attempt < 3 then
            (case stretchEnd 0.6 (currentWaypoints st) of
               Inl e \<Rightarrow> Inl (e, st)
             | Inr ws \<Rightarrow> Inr (Next (st\<lparr>currentWaypoints := ws\<rparr>)))
          else Inr (Return (Inr (r, actualDistance)) st))"

text \<open>
  The \<^verbatim>\<open>catch\<close> block. A 404 whose message has "profile not found" moves to the next
  profile and continues (the \<^verbatim>\<open>for\<close> loop still counts the attempt). Otherwise the end
  point is put on a circle around \<^verbatim>\<open>waypoints[0]\<close>, the original start, and the error is
  rethrown on the last attempt.
\<close>

definition cyclingCatch ::
  "coord list \<Rightarrow> nat \<Rightarrow> nat \<Rightarrow> error \<Rightarrow> loop_state \<Rightarrow> (response \<times> number) step" where
  "cyclingCatch waypoints maxRetries attempt apiError st =
     (if response_status apiError = Some 404 \<and> message_includes_profile_not_found apiError
         \<and> indexOf cyclingProfiles (currentProfile st) < int (length cyclingProfiles) - 1
      then Next (st\<lparr>currentProfile :=
                      cyclingProfiles ! nat (indexOf cyclingProfiles (currentProfile st) + 1)\<rparr>)
      else
        (case waypoints of
           [] \<Rightarrow> Return (Inl TypeError) st
         | originalStart # rest \<Rightarrow>
             let baseRadius = 0.05 + real attempt * 0.02;
                 angle = real attempt * 45;
                 angleRad = (angle * pi) / 180;
                 newEndLng = fst originalStart + cos angleRad * baseRadius;
                 newEndLat = snd originalStart + sin angleRad * baseRadius;
                 st' = st\<lparr>currentWaypoints := [originalStart, (newEndLng, newEndLat)]\<rparr>
             in if int attempt = int maxRetries - 1 then Return (Inl apiError) st' else Next st'))"

definition cyclingBody ::
  "env \<Rightarrow> coord list \<Rightarrow> nat \<Rightarrow> nat \<Rightarrow> loop_state \<Rightarrow> (response \<times> number) step" where
  "cyclingBody E waypoints maxRetries attempt st =
     (case callOpenRouteService E (httpRequests st) (currentWaypoints st) (currentProfile st) 2 of
        (Inl apiError, k') \<Rightarrow> cyclingCatch waypoints maxRetries attempt apiError (logAttempt st k')
      | (Inr r, k') \<Rightarrow>
          (case cyclingTry attempt r (logAttempt st k') of
             Inl (apiError, st') \<Rightarrow> cyclingCatch waypoints maxRetries attempt apiError st'
           | Inr s \<Rightarrow> s))"

function cyclingLoop ::
  "env \<Rightarrow> coord list \<Rightarrow> nat \<Rightarrow> nat \<Rightarrow> loop_state
     \<Rightarrow> (error + response \<times> number) \<times> loop_state" where
  "cyclingLoop E waypoints maxRetries attempt st =
     (if attempt < maxRetries then
        (case cyclingBody E waypoints maxRetries attempt st of
           Return r st' \<Rightarrow> (r, st')
         | Next st' \<Rightarrow> cyclingLoop E waypoints maxRetries (Suc attempt) st')
      else (Inl (CyclingRouteFailedAfter maxRetries), st))"
  by pat_completeness auto
termination
  by (relation "measure (\<lambda>(E, waypoints, maxRetries, attempt, st). maxRetries - attempt)") auto

declare cyclingLoop.simps [simp del]

text \<open>
  \<^verbatim>\<open>generateCityRouteWithRetry(waypoints, profile, targetDistance, routeName, maxRetries)\<close>.
  The \<^verbatim>\<open>profile\<close> argument is not read: the loop starts from \<^verbatim>\<open>cyclingProfiles[0]\<close>.
  \<^verbatim>\<open>[...waypoints]\<close> is a copy, so the caller's array is never changed.
\<close>

definition generateCityRouteWithRetry ::
  "env \<Rightarrow> nat \<Rightarrow> coord list \<Rightarrow> nat \<Rightarrow> (error + response \<times> number) \<times> loop_state" where
  "generateCityRouteWithRetry E k waypoints maxRetries =
     cyclingLoop E waypoints maxRetries 0
       \<lparr>currentWaypoints = waypoints, currentRadius = 0,
        currentProfile = cyclingProfiles ! 0, httpRequests = k, attemptLog = []\<rparr>"

text \<open>
  The assembly of the two day responses (the second \<^verbatim>\<open>try\<close> block of
  \<^verbatim>\<open>generateCyclingRoute\<close>). The start and end points of a day are read from the
  geometry the provider returned: \<^verbatim>\<open>coordinates[0]\<close> and
  \<^verbatim>\<open>coordinates[coordinates.length - 1]\<close>, a TypeError on an empty geometry.
\<close>

definition cyclingDuration :: "number \<Rightarrow> number \<Rightarrow> number" where
  "cyclingDuration totalDurationSeconds totalDistance =
     (let calculatedDurationMinutes = numOver totalDurationSeconds 60;
          estimatedDurationMinutes = numTimes (numOver totalDistance 20) 60
      in if numLt calculatedDurationMinutes 10 \<and> numGt totalDistance 20
         then estimatedDurationMinutes else calculatedDurationMinutes)"

definition dayDetail :: "nat \<Rightarrow> number \<Rightarrow> feature \<Rightarrow> error + day_detail" where
  "dayDetail n actualDistance f =
     (case coordinates f of
        [] \<Rightarrow> Inl TypeError
      | c # cs \<Rightarrow>
          Inr \<lparr>day = n, day_distance = actualDistance,
               day_duration = numOver (sumDuration (segments f)) 60,
               day_startPoint = toLatLng c,
               day_endPoint = toLatLng (last (c # cs)),
               day_path = map toLatLng (coordinates f)\<rparr>)"

definition processCyclingRoute ::
  "response \<Rightarrow> number \<Rightarrow> response \<Rightarrow> number \<Rightarrow> feature \<Rightarrow> feature \<Rightarrow> error + route" where
  "processCyclingRoute day1Response actualDay1Distance day2Response actualDay2Distance f1 f2 =
     (let totalDistance = numAdd actualDay1Distance actualDay2Distance;
          totalDurationSeconds = numAdd (sumDuration (segments f1)) (sumDuration (segments f2))
      in case dayDetail 1 actualDay1Distance f1 of
           Inl e \<Rightarrow> Inl e
         | Inr d1 \<Rightarrow>
             (case dayDetail 2 actualDay2Distance f2 of
                Inl e \<Rightarrow> Inl e
              | Inr d2 \<Rightarrow>
                  Inr \<lparr>distance = totalDistance,
                       estimatedDuration = cyclingDuration totalDurationSeconds totalDistance,
                       path = map toLatLng (coordinates f1) @ map toLatLng (coordinates f2),
                       startPoint = day_startPoint d1,
                       endPoint = day_endPoint d2,
                       elevationGain =
                         numAdd (sumElevation (segments f1)) (sumElevation (segments f2)),
                       routeType = ''cycling'',
                       isMultiDay = True,
                       dayDetails = [d1, d2],
                       debugResponses = [day1Response, day2Response]\<rparr>))"

definition cyclingRouteOf ::
  "response \<Rightarrow> number \<Rightarrow> response \<Rightarrow> number \<Rightarrow> error + route" where
  "cyclingRouteOf day1Response actualDay1Distance day2Response actualDay2Distance =
     (case (features day1Response, features day2Response) of
        (f1 # fs1, f2 # fs2) \<Rightarrow>
          (case processCyclingRoute day1Response actualDay1Distance
                  day2Response actualDay2Distance f1 f2 of
             Inl e \<Rightarrow> Inl (FailedToProcessCyclingRoute e)
           | Inr r \<Rightarrow> Inr r)
      | _ \<Rightarrow> Inl InvalidResponseStructure)"

text \<open>
  The seed waypoints of the two days, from the four draws of \<^verbatim>\<open>Math.random()\<close>. Day 2 is
  laid out from the proposed end point of day 1.
\<close>

definition cyclingSeeds :: "env \<Rightarrow> latlng \<Rightarrow> coord list \<times> coord list" where
  "cyclingSeeds E startCenter =
     (let startLat = lat startCenter;
          startLng = lng startCenter;
          kmToDegrees = 1 / 111;
          day1Angle = random E 0 * 2 * pi;
          day1DistanceDeg = (15 + random E 1 * 15) * kmToDegrees;
          day1EndLat = startLat + day1DistanceDeg * cos day1Angle;
          day1EndLng = startLng + day1DistanceDeg * sin day1Angle;
          day2Angle = day1Angle + pi + (random E 2 * pi - pi / 2);
          day2DistanceDeg = (15 + random E 3 * 15) * kmToDegrees;
          day2EndLat = day1EndLat + day2DistanceDeg * cos day2Angle;
          day2EndLng = day1EndLng + day2DistanceDeg * sin day2Angle
      in ([(startLng, startLat), (day1EndLng, day1EndLat)],
          [(day1EndLng, day1EndLat), (day2EndLng, day2EndLat)]))"

text \<open>
  The two searches in sequence. \<^verbatim>\<open>day1EndCoords = day1Waypoints[1]\<close> reads the caller's
  own array, which the first search has not changed.
\<close>

definition cyclingSearch ::
  "env \<Rightarrow> coord list \<Rightarrow> coord list
     \<Rightarrow> error + (response \<times> number) \<times> (response \<times> number)" where
  "cyclingSearch E day1Waypoints day2Waypoints =
     (case generateCityRouteWithRetry E 0 day1Waypoints 8 of
        (Inl e, st1) \<Rightarrow> Inl (CyclingRouteFailed e)
      | (Inr day1Result, st1) \<Rightarrow>
          (let day1EndCoords = day1Waypoints ! 1;
               updatedDay2Waypoints = [day1EndCoords, day2Waypoints ! 1]
           in case generateCityRouteWithRetry E (httpRequests st1) updatedDay2Waypoints 8 of
                (Inl e, st2) \<Rightarrow> Inl (CyclingRouteFailed e)
              | (Inr day2Result, st2) \<Rightarrow> Inr (day1Result, day2Result)))"

definition generateCyclingRoute ::
  "env \<Rightarrow> js_string \<Rightarrow> js_string \<Rightarrow> error + route" where
  "generateCyclingRoute E country city =
     (case resolveCity E country city of
        Inl e \<Rightarrow> Inl e
      | Inr city' \<Rightarrow>
          (case geocodeLocation E country city' of
             GeocodeThrows \<Rightarrow> Inl FailedToGeocodeLocation
           | GeocodeNull \<Rightarrow> Inl CouldNotFindStartingCity
           | Geocoded startCenter \<Rightarrow>
               (case cyclingSeeds E startCenter of
                  (day1Waypoints, day2Waypoints) \<Rightarrow>
                    (case cyclingSearch E day1Waypoints day2Waypoints of
                       Inl e \<Rightarrow> Inl e
                     | Inr ((day1Response, actualDay1Distance),
                            (day2Response, actualDay2Distance)) \<Rightarrow>
                         cyclingRouteOf day1Response actualDay1Distance
                           day2Response actualDay2Distance))))"

section \<open>Fixtures: a configured service and scripted providers\<close>

text \<open>
  A well-formed provider answer: one feature with one segment of the given length (metres)
  and duration (seconds), whose geometry is the given coordinate list.
\<close>

definition routeAnswer :: "real \<Rightarrow> real \<Rightarrow> coord list \<Rightarrow> response" where
  "routeAnswer metres seconds geometry =
     \<lparr>features = [\<lparr>segments = [\<lparr>seg_distance = Num metres, seg_duration = Num seconds,
                                  seg_elevation_gain = Num 0\<rparr>],
                   summary_duration = None, coordinates = geometry\<rparr>]\<rparr>"

text \<open>
  An answer with the given segments, each a pair of metres and seconds (either may be
  \<^verbatim>\<open>NaN\<close>, for a field that is missing), and the provider that gives it to every
  request, routed through the requested coordinates.
\<close>

definition segmentsAnswer :: "(number \<times> number) list \<Rightarrow> coord list \<Rightarrow> response" where
  "segmentsAnswer segs geometry =
     \<lparr>features = [\<lparr>segments = map (\<lambda>(metres, seconds).
                                     \<lparr>seg_distance = metres, seg_duration = seconds,
                                      seg_elevation_gain = Num 0\<rparr>) segs,
                   summary_duration = None, coordinates = geometry\<rparr>]\<rparr>"

definition segmentsProvider ::
  "(number \<times> number) list \<Rightarrow> nat \<Rightarrow> string \<Rightarrow> coord list \<Rightarrow> net_outcome" where
  "segmentsProvider segs k profile cs = Resolved (segmentsAnswer segs cs)"

text \<open>Country and city names of the fixtures, as code units.\<close>

definition Israel :: js_string where
  "Israel = map of_char ''Israel''"

definition Haifa :: js_string where
  "Haifa = map of_char ''Haifa''"

text \<open>
  A provider that routes exactly through the requested coordinates and measures
  \<open>metres k\<close> on its \<open>k\<close>-th request.
\<close>

definition echoProvider :: "(nat \<Rightarrow> real) \<Rightarrow> real \<Rightarrow> nat \<Rightarrow> string \<Rightarrow> coord list \<Rightarrow> net_outcome" where
  "echoProvider metres seconds k profile cs = Resolved (routeAnswer (metres k) seconds cs)"

definition refusingProvider :: "nat \<Rightarrow> nat \<Rightarrow> string \<Rightarrow> coord list \<Rightarrow> net_outcome" where
  "refusingProvider status k profile cs = Rejected (Some status)"

text \<open>
  A service with an API key, a geocoder that finds the city at (32, 35), and the random
  draws 0, 0, 1/2, 0 (day 1 heads along the meridian for 15 km, day 2 the opposite way).
\<close>

definition serviceWith :: "(nat \<Rightarrow> string \<Rightarrow> coord list \<Rightarrow> net_outcome) \<Rightarrow> env" where
  "serviceWith provider =
     \<lparr>apiKey = True, net = provider,
      random = (\<lambda>i. if i = 2 then 1 / 2 else 0),
      geocodeLocation = (\<lambda>country city. Geocoded \<lparr>lat = 32, lng = 35\<rparr>),
      getCapitalCity = (\<lambda>country. None)\<rparr>"

abbreviation ring :: "real \<Rightarrow> real \<Rightarrow> real \<Rightarrow> nat \<Rightarrow> coord list" where
  "ring centerLat centerLng radiusDeg n \<equiv>
     map (ringPoint centerLat centerLng radiusDeg n) [0..<n]
       @ [ringPoint centerLat centerLng radiusDeg n 0]"

text \<open>The measurements of three scripted providers, by request number.\<close>

fun steadyMetres :: "real \<Rightarrow> nat \<Rightarrow> real" where
  "steadyMetres m k = m"

definition shrinkingMetres :: "nat \<Rightarrow> real" where
  "shrinkingMetres k = (if k = 0 then 18000 else if k = 1 then 16000 else 13000)"


definition shortThenFine :: "nat \<Rightarrow> real" where
  "shortThenFine k = (if k = 0 then 2000 else 30000)"

text \<open>
  The end point that the \<^verbatim>\<open>catch\<close> block of \<^verbatim>\<open>generateCityRouteWithRetry\<close> proposes at
  the given attempt: on the circle of radius \<^verbatim>\<open>0.05 + attempt * 0.02\<close> degrees around the
  original start, at \<^verbatim>\<open>attempt * 45\<close> degrees.
\<close>

definition rotatedEnd :: "coord \<Rightarrow> nat \<Rightarrow> coord" where
  "rotatedEnd originalStart attempt =
     (fst originalStart + cos ((real attempt * 45 * pi) / 180) * (0.05 + real attempt * 0.02),
      snd originalStart + sin ((real attempt * 45 * pi) / 180) * (0.05 + real attempt * 0.02))"

section \<open>Sums over segments\<close>

lemma foldl_numAdd_Num:
  "map g segs = map Num ms
   \<Longrightarrow> foldl (\<lambda>sum s. numAdd sum (g s)) (Num a) segs = Num (a + sum_list ms)"
proof (induction segs arbitrary: ms a)
  case Nil
  then show ?case by simp
next
  case (Cons s segs)
  then obtain m ms' where ms: "ms = m # ms'" "g s = Num m" "map g segs = map Num ms'"
    by (cases ms) auto
  from Cons.IH[OF ms(3), of "a + m"] ms show ?case by (simp add: add.assoc)
qed

lemma foldl_numAdd_from_NaN: "foldl (\<lambda>sum s. numAdd sum (g s)) NaN segs = NaN"
  by (induction segs) simp_all

lemma foldl_numAdd_NaN:
  "NaN \<in> g ` set segs \<Longrightarrow> foldl (\<lambda>sum s. numAdd sum (g s)) x segs = NaN"
proof (induction segs arbitrary: x)
  case Nil
  then show ?case by simp
next
  case (Cons s segs)
  show ?case
  proof (cases "g s")
    case NaN
    then have "numAdd x (g s) = NaN" by (cases x) simp_all
    then show ?thesis by (simp add: foldl_numAdd_from_NaN)
  next
    case (Num m)
    with Cons.prems have "NaN \<in> g ` set segs" by auto
    from Cons.IH[OF this] show ?thesis by simp
  qed
qed

lemma sumDistance_Num:
  "map seg_distance segs = map Num ms \<Longrightarrow> sumDistance segs = Num (sum_list ms)"
  using foldl_numAdd_Num[of seg_distance segs ms 0] by (simp add: sumDistance_def)

lemma sumDuration_Num:
  "map seg_duration segs = map Num ds \<Longrightarrow> sumDuration segs = Num (sum_list ds)"
  using foldl_numAdd_Num[of seg_duration segs ds 0] by (simp add: sumDuration_def)


lemma sumDuration_NaN: "NaN \<in> seg_duration ` set segs \<Longrightarrow> sumDuration segs = NaN"
  by (simp add: sumDuration_def foldl_numAdd_NaN)

section \<open>Every iteration is one logged attempt\<close>

lemma walkingBody_log:
  "walkingBody E cLat cLng n N a st = Return r st' \<or> walkingBody E cLat cLng n N a st = Next st'
   \<Longrightarrow> attemptLog st' = attemptLog st @ [(currentProfile st, currentWaypoints st)]"
  by (auto simp: walkingBody_def walkingTry_def walkingCatch_def logAttempt_def Let_def
      split: prod.splits sum.splits if_splits)

lemma cyclingBody_log:
  "cyclingBody E ws N a st = Return r st' \<or> cyclingBody E ws N a st = Next st'
   \<Longrightarrow> attemptLog st' = attemptLog st @ [(currentProfile st, currentWaypoints st)]"
  by (auto simp: cyclingBody_def cyclingTry_def cyclingCatch_def logAttempt_def Let_def
      split: prod.splits sum.splits if_splits list.splits)

lemma walkingLoop_attempts:
  "length (attemptLog (snd (walkingLoop E cLat cLng n N a st))) \<le> length (attemptLog st) + (N - a)"
proof (induction E cLat cLng n N a st rule: walkingLoop.induct)
  case (1 E cLat cLng n N a st)
  show ?case
  proof (cases "a < N")
    case False
    then show ?thesis by (simp add: walkingLoop.simps)
  next
    case True
    show ?thesis
    proof (cases "walkingBody E cLat cLng n N a st")
      case (Return r st')
      with True walkingBody_log[of E cLat cLng n N a st r st'] show ?thesis
        by (simp add: walkingLoop.simps)
    next
      case (Next st')
      with True walkingBody_log[of E cLat cLng n N a st _ st'] "1.IH"[OF True Next] show ?thesis
        by (simp add: walkingLoop.simps)
    qed
  qed
qed

lemma cyclingLoop_attempts:
  "length (attemptLog (snd (cyclingLoop E ws N a st))) \<le> length (attemptLog st) + (N - a)"
proof (induction E ws N a st rule: cyclingLoop.induct)
  case (1 E ws N a st)
  show ?case
  proof (cases "a < N")
    case False
    then show ?thesis by (simp add: cyclingLoop.simps)
  next
    case True
    show ?thesis
    proof (cases "cyclingBody E ws N a st")
      case (Return r st')
      with True cyclingBody_log[of E ws N a st r st'] show ?thesis
        by (simp add: cyclingLoop.simps)
    next
      case (Next st')
      with True cyclingBody_log[of E ws N a st _ st'] "1.IH"[OF True Next] show ?thesis
        by (simp add: cyclingLoop.simps)
    qed
  qed
qed

text \<open>
  C1. Whatever the provider answers, \<^verbatim>\<open>validateAndRetryRoute\<close> and
  \<^verbatim>\<open>generateCityRouteWithRetry\<close> called with \<open>maxRetries = N\<close> call
  \<^verbatim>\<open>callOpenRouteService\<close> at most \<open>N\<close> times, and end with a response or an error
  (both models are total functions into \<open>error + _\<close>).
\<close>

theorem retry_loops_bounded:
  "length (attemptLog (snd (validateAndRetryRoute E cLat cLng rKm n k ws N))) \<le> N
   \<and> length (attemptLog (snd (generateCityRouteWithRetry E k' ws' N))) \<le> N"
proof
  show "length (attemptLog (snd (validateAndRetryRoute E cLat cLng rKm n k ws N))) \<le> N"
    unfolding validateAndRetryRoute_def
    by (rule order_trans[OF walkingLoop_attempts]) simp
  show "length (attemptLog (snd (generateCityRouteWithRetry E k' ws' N))) \<le> N"
    unfolding generateCityRouteWithRetry_def
    by (rule order_trans[OF cyclingLoop_attempts]) simp
qed


theorem retry_loops_bounded_witness:
  "length (attemptLog (snd (validateAndRetryRoute (serviceWith (refusingProvider 500))
       32 35 (baseRadiusKm 10) 10 0 [] 8))) \<le> 8
   \<and> length (attemptLog (snd (generateCityRouteWithRetry (serviceWith (refusingProvider 500))
       0 [(35, 32), (35, 32.2)] 8))) \<le> 8"
  using retry_loops_bounded [of "serviceWith (refusingProvider 500)" 32 35 "baseRadiusKm 10" 10 0
      "[]" 8 0 "[(35, 32), (35, 32.2)]"]
  by simp

section \<open>Local validation of the generated waypoints\<close>

lemma validateCoordinates_None:
  "(\<And>c. c \<in> set cs \<Longrightarrow> - 90 \<le> snd c \<and> snd c \<le> 90 \<and> - 180 \<le> fst c \<and> fst c \<le> 180
        \<and> (0.1 \<le> \<bar>snd c\<bar> \<or> 0.1 \<le> \<bar>fst c\<bar>))
   \<Longrightarrow> validateCoordinates i cs = None"
proof (induction cs arbitrary: i)
  case Nil
  then show ?case by simp
next
  case (Cons c cs)
  obtain x y where c: "c = (x, y)" by (cases c)
  from Cons.prems[of c] c have "- 90 \<le> y \<and> y \<le> 90 \<and> - 180 \<le> x \<and> x \<le> 180 \<and> (0.1 \<le> \<bar>y\<bar> \<or> 0.1 \<le> \<bar>x\<bar>)"
    by simp
  moreover have "validateCoordinates (Suc i) cs = None"
    by (rule Cons.IH, rule Cons.prems, simp)
  ultimately show ?case using c by auto
qed

lemma requestLoop_resolved:
  "net E k p cs = Resolved r \<Longrightarrow> requestLoop E p cs m 0 k = (Inr r, Suc k)"
  by (simp add: requestLoop.simps makeRateLimitedRequest_def)

lemma requestLoop_auth:
  "net E k p cs = Rejected (Some s) \<Longrightarrow> s = 401 \<or> s = 403
   \<Longrightarrow> requestLoop E p cs m 0 k = (Inl (AuthenticationError s), Suc k)"
  by (auto simp: requestLoop.simps makeRateLimitedRequest_def)

lemma requestLoop_counts:
  "k \<le> snd (requestLoop E p cs m a k) \<and> (a \<le> m \<longrightarrow> k < snd (requestLoop E p cs m a k))"
proof (induction E p cs m a k rule: requestLoop.induct)
  case (1 E profile cs maxRetries attempt k)
  show ?case
  proof (cases "attempt \<le> maxRetries")
    case False
    then show ?thesis by (simp add: requestLoop.simps)
  next
    case True
    obtain out k' where req: "makeRateLimitedRequest E k profile cs = (out, k')"
      by (cases "makeRateLimitedRequest E k profile cs")
    then have k': "k < k'"
      by (auto simp: makeRateLimitedRequest_def split: net_outcome.splits option.splits if_splits)
    have ih: "k' \<le> snd (requestLoop E profile cs maxRetries (Suc attempt) k')"
      if "out = Rejected None
          \<or> (\<exists>s. out = Rejected (Some s) \<and> s \<noteq> 400 \<and> s \<noteq> 404 \<and> s \<noteq> 401 \<and> s \<noteq> 403)"
      using that "1.IH"[OF True req[symmetric]] by auto
    have unfold: "requestLoop E profile cs maxRetries attempt k =
        (case out of
           Resolved data \<Rightarrow> (Inr data, k')
         | Rejected (Some status) \<Rightarrow>
             if status = 400 then (Inl InvalidRequestParameters, k')
             else if status = 404 then (Inl (ProfileNotFound profile), k')
             else if status = 401 \<or> status = 403 then (Inl (AuthenticationError status), k')
             else requestLoop E profile cs maxRetries (Suc attempt) k'
         | Rejected None \<Rightarrow> requestLoop E profile cs maxRetries (Suc attempt) k')"
      using True by (subst requestLoop.simps) (simp add: req)
    show ?thesis
      unfolding unfold using True k' ih
      by (auto split: net_outcome.splits option.splits)
  qed
qed

lemma requestLoop_sends: "a \<le> m \<Longrightarrow> k < snd (requestLoop E p cs m a k)"
  using requestLoop_counts by blast

lemma callOpenRouteService_resolved:
  "apiKey E \<Longrightarrow> \<not> pointsTooFarApart cs \<Longrightarrow> validateCoordinates 0 cs = None
   \<Longrightarrow> net E k p cs = Resolved r
   \<Longrightarrow> callOpenRouteService E k cs p m = (Inr r, Suc k)"
  by (simp add: callOpenRouteService_def requestLoop_resolved)

lemma callOpenRouteService_auth:
  "apiKey E \<Longrightarrow> \<not> pointsTooFarApart cs \<Longrightarrow> validateCoordinates 0 cs = None
   \<Longrightarrow> net E k p cs = Rejected (Some s) \<Longrightarrow> s = 401 \<or> s = 403
   \<Longrightarrow> callOpenRouteService E k cs p m = (Inl (AuthenticationError s), Suc k)"
  by (simp add: callOpenRouteService_def requestLoop_auth)

lemma ringWaypoints_Inr:
  "0 < n \<Longrightarrow> ringWaypoints cLat cLng r n =
     Inr (map (ringPoint cLat cLng r n) [0..<n] @ [ringPoint cLat cLng r n 0])"
  by (cases n) (simp_all add: ringWaypoints_def upt_conv_Cons del: upt_Suc)

lemma ringPoint_bounds:
  "\<bar>fst (ringPoint cLat cLng r n i) - cLng\<bar> \<le> \<bar>r\<bar> \<and> \<bar>snd (ringPoint cLat cLng r n i) - cLat\<bar> \<le> \<bar>r\<bar>"
proof -
  have "\<bar>r * sin x\<bar> \<le> \<bar>r\<bar>" "\<bar>r * cos x\<bar> \<le> \<bar>r\<bar>" for x
    by (simp_all add: abs_mult mult_left_le)
  then show ?thesis by (simp add: ringPoint_def Let_def)
qed

lemma ring_valid:
  assumes "1 \<le> \<bar>cLat\<bar>" "\<bar>cLat\<bar> \<le> 89" "\<bar>cLng\<bar> \<le> 179" "\<bar>r\<bar> \<le> 0.2"
  shows "validateCoordinates 0 (map (ringPoint cLat cLng r n) [0..<n] @ [ringPoint cLat cLng r n 0]) = None"
proof (rule validateCoordinates_None)
  fix c assume "c \<in> set (map (ringPoint cLat cLng r n) [0..<n] @ [ringPoint cLat cLng r n 0])"
  then obtain i where c: "c = ringPoint cLat cLng r n i" by auto
  from ringPoint_bounds[of cLat cLng r n i] c
  have "\<bar>fst c - cLng\<bar> \<le> \<bar>r\<bar>" "\<bar>snd c - cLat\<bar> \<le> \<bar>r\<bar>" by simp_all
  with assms show "- 90 \<le> snd c \<and> snd c \<le> 90 \<and> - 180 \<le> fst c \<and> fst c \<le> 180
        \<and> (0.1 \<le> \<bar>snd c\<bar> \<or> 0.1 \<le> \<bar>fst c\<bar>)"
    by (auto simp: abs_le_iff abs_if split: if_splits)
qed

lemma pair_near:
  assumes "\<bar>x2 - x1\<bar> \<le> d" "\<bar>y2 - y1\<bar> \<le> d" "d \<le> 0.36"
  shows "\<not> pointsTooFarApart ((x1, y1) # (x2, y2) # rest)"
proof -
  have "sqrt ((y2 - y1)\<^sup>2 + (x2 - x1)\<^sup>2) \<le> \<bar>y2 - y1\<bar> + \<bar>x2 - x1\<bar>"
    by (rule sqrt_sum_squares_le_sum_abs)
  with assms have "sqrt ((y2 - y1)\<^sup>2 + (x2 - x1)\<^sup>2) \<le> 0.72" by linarith
  then show ?thesis by (simp add: pointsTooFarApart_def)
qed

lemma ring_near:
  assumes "\<bar>r\<bar> \<le> 0.18"
  shows "\<not> pointsTooFarApart (map (ringPoint cLat cLng r n) [0..<n] @ [ringPoint cLat cLng r n 0])"
proof -
  let ?p = "ringPoint cLat cLng r n"
  have near: "\<not> pointsTooFarApart (?p i # ?p j # rest)" for i j rest
  proof -
    obtain x1 y1 where p1: "?p i = (x1, y1)" by (cases "?p i")
    obtain x2 y2 where p2: "?p j = (x2, y2)" by (cases "?p j")
    from ringPoint_bounds[of cLat cLng r n i] ringPoint_bounds[of cLat cLng r n j] p1 p2
    have b: "\<bar>x1 - cLng\<bar> \<le> \<bar>r\<bar>" "\<bar>y1 - cLat\<bar> \<le> \<bar>r\<bar>" "\<bar>x2 - cLng\<bar> \<le> \<bar>r\<bar>" "\<bar>y2 - cLat\<bar> \<le> \<bar>r\<bar>"
      by simp_all
    have "\<bar>x2 - x1\<bar> \<le> 2 * \<bar>r\<bar>" using b(1,3) by linarith
    moreover have "\<bar>y2 - y1\<bar> \<le> 2 * \<bar>r\<bar>" using b(2,4) by linarith
    ultimately have "\<bar>x2 - x1\<bar> \<le> 2 * \<bar>r\<bar>" "\<bar>y2 - y1\<bar> \<le> 2 * \<bar>r\<bar>" by simp_all
    with assms show ?thesis unfolding p1 p2 by (intro pair_near[where d = "2 * \<bar>r\<bar>"]) auto
  qed
  show ?thesis
  proof (cases n)
    case 0
    then show ?thesis by (simp add: pointsTooFarApart_def split: prod.splits)
  next
    case (Suc m)
    show ?thesis
    proof (cases m)
      case 0
      with Suc show ?thesis using near[of 0 0 "[]"] by simp
    next
      case (Suc l)
      with \<open>n = Suc m\<close> have "[0..<n] = 0 # 1 # [2..<n]"
        by (simp add: upt_conv_Cons numeral_2_eq_2 del: upt_Suc)
      then show ?thesis using near[of 0 1] by simp
    qed
  qed
qed

lemma callOpenRouteService_ring:
  assumes "apiKey E" "1 \<le> \<bar>cLat\<bar>" "\<bar>cLat\<bar> \<le> 89" "\<bar>cLng\<bar> \<le> 179" "\<bar>r\<bar> \<le> 0.18" "0 < n"
    and "ringWaypoints cLat cLng r n = Inr ws"
  shows "callOpenRouteService E k ws p m = requestLoop E p ws m 0 k"
proof -
  from assms(6,7) have ws: "ws = map (ringPoint cLat cLng r n) [0..<n] @ [ringPoint cLat cLng r n 0]"
    by (simp add: ringWaypoints_Inr)
  from assms show ?thesis unfolding ws
    by (simp add: callOpenRouteService_def ring_near ring_valid)
qed


lemma pair_valid:
  assumes "1 \<le> \<bar>y1\<bar>" "\<bar>y1\<bar> \<le> 89" "\<bar>x1\<bar> \<le> 179" "\<bar>x2 - x1\<bar> \<le> d" "\<bar>y2 - y1\<bar> \<le> d" "d \<le> 0.36"
  shows "validateCoordinates 0 [(x1, y1), (x2, y2)] = None"
  using assms by (auto simp: abs_if split: if_splits)

lemma callOpenRouteService_pair:
  assumes "apiKey E" "1 \<le> \<bar>y1\<bar>" "\<bar>y1\<bar> \<le> 89" "\<bar>x1\<bar> \<le> 179"
    "\<bar>x2 - x1\<bar> \<le> d" "\<bar>y2 - y1\<bar> \<le> d" "d \<le> 0.36"
  shows "callOpenRouteService E k [(x1, y1), (x2, y2)] p m = requestLoop E p [(x1, y1), (x2, y2)] m 0 k"
  using assms(1) pair_valid[OF assms(2-7)] pair_near[OF assms(5-7), of "[]"]
  by (simp add: callOpenRouteService_def)

section \<open>The walking loop, step by step\<close>

lemma walkingTry_measured:
  assumes "features r = f # fs" "0 < n" "sumDistance (segments f) = Num m"
  shows "walkingTry cLat cLng n r st =
     (let d = m / 1000 in
      if 5 \<le> d \<and> d \<le> 15 then Inr (Return (Inr r) st)
      else if d > 15 then
        Inr (Next (st\<lparr>currentRadius := currentRadius st * 0.8,
                       currentWaypoints := ring cLat cLng (currentRadius st * 0.8 / 111) n\<rparr>))
      else
        Inr (Next (st\<lparr>currentRadius := currentRadius st * 1.3,
                       currentWaypoints := ring cLat cLng (currentRadius st * 1.3 / 111) n\<rparr>)))"
  using assms by (simp add: walkingTry_def firstFeature_def Let_def ringWaypoints_Inr)

lemma walkingBody_measured:
  assumes "callOpenRouteService E (httpRequests st) (currentWaypoints st) ''foot-walking'' 2
             = (Inr r, k')"
    and "features r = f # fs" "0 < n" "sumDistance (segments f) = Num m"
  shows "walkingBody E cLat cLng n N a st =
     (let d = m / 1000; st1 = logAttempt st k' in
      if 5 \<le> d \<and> d \<le> 15 then Return (Inr r) st1
      else if d > 15 then
        Next (st1\<lparr>currentRadius := currentRadius st * 0.8,
                  currentWaypoints := ring cLat cLng (currentRadius st * 0.8 / 111) n\<rparr>)
      else
        Next (st1\<lparr>currentRadius := currentRadius st * 1.3,
                  currentWaypoints := ring cLat cLng (currentRadius st * 1.3 / 111) n\<rparr>))"
  using assms
  by (simp add: walkingBody_def walkingTry_measured[OF assms(2,3,4)] Let_def logAttempt_def)



lemma numPoints_10: "numPoints 10 = 10"
  by (simp add: numPoints_def)

lemma baseRadiusKm_10: "1 / 2 \<le> baseRadiusKm 10 \<and> baseRadiusKm 10 \<le> 1"
proof -
  have "10 / (2 * pi * 3) \<le> 1" using pi_ge_two by (simp add: field_simps)
  then show ?thesis by (simp add: baseRadiusKm_def)
qed

lemma baseRadiusKm_10_range: "0 \<le> baseRadiusKm 10" "baseRadiusKm 10 \<le> 19"
  using baseRadiusKm_10 by auto

lemma noCity_Haifa: "\<not> noCity Haifa"
  by (simp add: noCity_def isWhiteSpace_def Haifa_def)

lemma walkingLoop_step:
  assumes "apiKey E" "1 \<le> \<bar>cLat\<bar>" "\<bar>cLat\<bar> \<le> 89" "\<bar>cLng\<bar> \<le> 179" "0 < n" "a < N"
    and "\<bar>currentRadius st\<bar> \<le> 19"
    and "currentWaypoints st = ring cLat cLng (currentRadius st / 111) n"
    and "net E (httpRequests st) ''foot-walking'' (currentWaypoints st) = Resolved r"
    and "features r = f # fs" "sumDistance (segments f) = Num m"
  shows "walkingLoop E cLat cLng n N a st =
     (let d = m / 1000; st1 = logAttempt st (Suc (httpRequests st)) in
      if 5 \<le> d \<and> d \<le> 15 then (Inr r, st1)
      else if d > 15 then
        walkingLoop E cLat cLng n N (Suc a)
          (st1\<lparr>currentRadius := currentRadius st * 0.8,
               currentWaypoints := ring cLat cLng (currentRadius st * 0.8 / 111) n\<rparr>)
      else
        walkingLoop E cLat cLng n N (Suc a)
          (st1\<lparr>currentRadius := currentRadius st * 1.3,
               currentWaypoints := ring cLat cLng (currentRadius st * 1.3 / 111) n\<rparr>))"
proof -
  have small: "\<bar>currentRadius st / 111\<bar> \<le> 0.18" using assms(7) by simp
  have "callOpenRouteService E (httpRequests st) (currentWaypoints st) ''foot-walking'' 2
          = (Inr r, Suc (httpRequests st))"
    using assms(1-4,9) small unfolding assms(8)
    by (intro callOpenRouteService_resolved ring_near ring_valid) auto
  from walkingBody_measured[OF this assms(10,5,11), of cLat cLng N a] assms(6)
  show ?thesis
    by (subst walkingLoop.simps) (simp add: Let_def)
qed

lemma walkingLoop_18_16_13:
  assumes E: "apiKey E" "1 \<le> \<bar>cLat\<bar>" "\<bar>cLat\<bar> \<le> 89" "\<bar>cLng\<bar> \<le> 179" "0 < n"
    and rad: "0 \<le> rKm" "rKm \<le> 19"
    and net: "net E k ''foot-walking'' (ring cLat cLng (rKm / 111) n) = Resolved r1"
      "net E (Suc k) ''foot-walking'' (ring cLat cLng (rKm * 0.8 / 111) n) = Resolved r2"
      "net E (Suc (Suc k)) ''foot-walking'' (ring cLat cLng (rKm * 0.8 * 0.8 / 111) n) = Resolved r3"
    and r1: "features r1 = f1 # fs1" "sumDistance (segments f1) = Num 18000"
    and r2: "features r2 = f2 # fs2" "sumDistance (segments f2) = Num 16000"
    and r3: "features r3 = f3 # fs3" "sumDistance (segments f3) = Num 13000"
  shows "validateAndRetryRoute E cLat cLng rKm n k (ring cLat cLng (rKm / 111) n) 8 =
     (Inr r3,
      \<lparr>currentWaypoints = ring cLat cLng (rKm * 0.8 * 0.8 / 111) n,
       currentRadius = rKm * 0.8 * 0.8, currentProfile = ''foot-walking'',
       httpRequests = k + 3,
       attemptLog = [(''foot-walking'', ring cLat cLng (rKm / 111) n),
                     (''foot-walking'', ring cLat cLng (rKm * 0.8 / 111) n),
                     (''foot-walking'', ring cLat cLng (rKm * 0.8 * 0.8 / 111) n)]\<rparr>)"
proof -
  let ?w = "\<lambda>x. ring cLat cLng (x / 111) n"
  let ?st0 = "\<lparr>currentWaypoints = ?w rKm, currentRadius = rKm,
       currentProfile = ''foot-walking'', httpRequests = k, attemptLog = []\<rparr>"
  let ?st1 = "\<lparr>currentWaypoints = ?w (rKm * 0.8), currentRadius = rKm * 0.8,
       currentProfile = ''foot-walking'', httpRequests = Suc k,
       attemptLog = [(''foot-walking'', ?w rKm)]\<rparr>"
  let ?st2 = "\<lparr>currentWaypoints = ?w (rKm * 0.8 * 0.8), currentRadius = rKm * 0.8 * 0.8,
       currentProfile = ''foot-walking'', httpRequests = Suc (Suc k),
       attemptLog = [(''foot-walking'', ?w rKm), (''foot-walking'', ?w (rKm * 0.8))]\<rparr>"
  have s0: "walkingLoop E cLat cLng n 8 0 ?st0 = walkingLoop E cLat cLng n 8 (Suc 0) ?st1"
    using rad net(1) by (subst walkingLoop_step[OF E(1-5) _ _ _ _ r1(1,2)])
      (simp_all add: r1(2) logAttempt_def)
  have s1: "walkingLoop E cLat cLng n 8 (Suc 0) ?st1 = walkingLoop E cLat cLng n 8 (Suc (Suc 0)) ?st2"
    using rad net(2) by (subst walkingLoop_step[OF E(1-5) _ _ _ _ r2(1,2)])
      (simp_all add: r2(2) logAttempt_def abs_mult)
  have s2: "walkingLoop E cLat cLng n 8 (Suc (Suc 0)) ?st2 =
      (Inr r3, logAttempt ?st2 (Suc (Suc (Suc k))))"
    using rad net(3) by (subst walkingLoop_step[OF E(1-5) _ _ _ _ r3(1,2)])
      (simp_all add: r3(2) abs_mult)
  show ?thesis
    unfolding validateAndRetryRoute_def s0 s1 s2 by (simp add: logAttempt_def)
qed

lemma walkingWaypoints_10:
  "walkingWaypoints cLat cLng 10 = Inr (ring cLat cLng (baseRadiusKm 10 / 111) 10)"
  by (simp add: walkingWaypoints_def numPoints_10 ringWaypoints_Inr)

lemma walkingRouteOf_ideal:
  assumes "features r = f # fs" "sumDistance (segments f) = Num m"
    "5 \<le> m / 1000" "m / 1000 \<le> 15" "coordinates f = c # cs"
  shows "walkingRouteOf r =
     Inr \<lparr>distance = Num (m / 1000),
          estimatedDuration = walkingDuration f (Num (m / 1000)),
          path = map toLatLng (coordinates f), startPoint = toLatLng c,
          endPoint = toLatLng (last (c # cs)), elevationGain = sumElevation (segments f),
          routeType = ''walking'', isMultiDay = False, dayDetails = [],
          debugResponses = [r]\<rparr>"
  using assms by (simp add: walkingRouteOf_def finalValidation_def Let_def)

lemma generateWalkingRoute_located:
  assumes "\<not> noCity city" "geocodeLocation E country city = Geocoded c"
  shows "generateWalkingRoute E country city =
     (case fst (validateAndRetryRoute E (lat c) (lng c) (baseRadiusKm 10) 10 0
                  (ring (lat c) (lng c) (baseRadiusKm 10 / 111) 10) 8) of
        Inl e \<Rightarrow> Inl e | Inr r \<Rightarrow> walkingRouteOf r)"
  using assms
  by (simp add: generateWalkingRoute_def resolveCity_def walkingWaypoints_10 numPoints_10)

text \<open>
  C6. A walking search (ideal range 5 to 15 km) whose provider measures 18 km, 16 km and
  13 km on the first three requests: the first two attempts are rejected as too long (the
  radius is shrunk by 0.8 after each, and new waypoints are requested), the third answer is
  returned by the loop, and the route built from it has a distance of 13 km.
\<close>

theorem walking_18_16_13_accepts_third:
  assumes "apiKey E" "\<not> noCity city" "geocodeLocation E country city = Geocoded c"
    and "1 \<le> \<bar>lat c\<bar>" "\<bar>lat c\<bar> \<le> 89" "\<bar>lng c\<bar> \<le> 179"
    and "net E 0 ''foot-walking'' (ring (lat c) (lng c) (baseRadiusKm 10 / 111) 10) = Resolved r1"
    and "net E 1 ''foot-walking'' (ring (lat c) (lng c) (baseRadiusKm 10 * 0.8 / 111) 10)
           = Resolved r2"
    and "net E 2 ''foot-walking'' (ring (lat c) (lng c) (baseRadiusKm 10 * 0.8 * 0.8 / 111) 10)
           = Resolved r3"
    and "features r1 = f1 # fs1" "sumDistance (segments f1) = Num 18000"
    and "features r2 = f2 # fs2" "sumDistance (segments f2) = Num 16000"
    and "features r3 = f3 # fs3" "sumDistance (segments f3) = Num 13000"
    and "coordinates f3 \<noteq> []"
  shows "\<exists>st route.
     validateAndRetryRoute E (lat c) (lng c) (baseRadiusKm 10) 10 0
       (ring (lat c) (lng c) (baseRadiusKm 10 / 111) 10) 8 = (Inr r3, st)
     \<and> map snd (attemptLog st) =
         [ring (lat c) (lng c) (baseRadiusKm 10 / 111) 10,
          ring (lat c) (lng c) (baseRadiusKm 10 * 0.8 / 111) 10,
          ring (lat c) (lng c) (baseRadiusKm 10 * 0.8 * 0.8 / 111) 10]
     \<and> currentRadius st = baseRadiusKm 10 * 0.8 * 0.8
     \<and> generateWalkingRoute E country city = Inr route
     \<and> distance route = Num 13 \<and> debugResponses route = [r3]"
proof -
  have rad: "0 \<le> baseRadiusKm 10" "baseRadiusKm 10 \<le> 19" using baseRadiusKm_10 by auto
  have n1: "net E (Suc 0) ''foot-walking'' (ring (lat c) (lng c) (baseRadiusKm 10 * 0.8 / 111) 10)
           = Resolved r2" using assms(8) by simp
  have n2: "net E (Suc (Suc 0)) ''foot-walking''
      (ring (lat c) (lng c) (baseRadiusKm 10 * 0.8 * 0.8 / 111) 10) = Resolved r3"
    using assms(9) by (simp add: numeral_2_eq_2)
  have loop: "validateAndRetryRoute E (lat c) (lng c) (baseRadiusKm 10) 10 0 (ring (lat c) (lng c) (baseRadiusKm 10 / 111) 10) 8 = (Inr r3, \<lparr>currentWaypoints = ring (lat c) (lng c) (baseRadiusKm 10 * 0.8 * 0.8 / 111) 10, currentRadius = baseRadiusKm 10 * 0.8 * 0.8, currentProfile = ''foot-walking'', httpRequests = 0 + 3, attemptLog = [(''foot-walking'', ring (lat c) (lng c) (baseRadiusKm 10 / 111) 10), (''foot-walking'', ring (lat c) (lng c) (baseRadiusKm 10 * 0.8 / 111) 10), (''foot-walking'', ring (lat c) (lng c) (baseRadiusKm 10 * 0.8 * 0.8 / 111) 10)]\<rparr>)"
    by (rule walkingLoop_18_16_13[OF assms(1,4,5,6) _ rad assms(7) n1 n2 assms(10-15)]) simp
  from assms(16) obtain x xs where geo: "coordinates f3 = x # xs" by (cases "coordinates f3") auto
  have route: "walkingRouteOf r3 = Inr \<lparr>distance = Num (13000 / 1000),
          estimatedDuration = walkingDuration f3 (Num (13000 / 1000)),
          path = map toLatLng (coordinates f3), startPoint = toLatLng x,
          endPoint = toLatLng (last (x # xs)), elevationGain = sumElevation (segments f3),
          routeType = ''walking'', isMultiDay = False, dayDetails = [],
          debugResponses = [r3]\<rparr>"
    by (rule walkingRouteOf_ideal[OF assms(14,15) _ _ geo]) simp_all
  show ?thesis
    unfolding generateWalkingRoute_located[OF assms(2,3)]
    by (subst loop, simp)+ (simp add: route)
qed

theorem walking_18_16_13_accepts_third_witness:
  "\<exists>st route.
     validateAndRetryRoute (serviceWith (echoProvider shrinkingMetres 9000)) 32 35
       (baseRadiusKm 10) 10 0 (ring 32 35 (baseRadiusKm 10 / 111) 10) 8
       = (Inr (routeAnswer 13000 9000 (ring 32 35 (baseRadiusKm 10 * 0.8 * 0.8 / 111) 10)), st)
     \<and> length (attemptLog st) = 3
     \<and> generateWalkingRoute (serviceWith (echoProvider shrinkingMetres 9000))
          Israel Haifa = Inr route
     \<and> distance route = Num 13"
proof -
  let ?E = "serviceWith (echoProvider shrinkingMetres 9000)"
  let ?W = "\<lambda>x. ring 32 35 (x / 111) 10"
  let ?f = "\<lambda>m x. \<lparr>segments = [\<lparr>seg_distance = Num m, seg_duration = Num 9000,
                                     seg_elevation_gain = Num 0\<rparr>],
                    summary_duration = None, coordinates = ?W x\<rparr>"
  have "\<exists>st route.
     validateAndRetryRoute ?E (lat \<lparr>lat = 32, lng = 35\<rparr>) (lng \<lparr>lat = 32, lng = 35\<rparr>)
       (baseRadiusKm 10) 10 0
       (ring (lat \<lparr>lat = 32, lng = 35\<rparr>) (lng \<lparr>lat = 32, lng = 35\<rparr>) (baseRadiusKm 10 / 111) 10) 8
       = (Inr (routeAnswer 13000 9000 (?W (baseRadiusKm 10 * 0.8 * 0.8))), st)
     \<and> map snd (attemptLog st) =
         [ring (lat \<lparr>lat = 32, lng = 35\<rparr>) (lng \<lparr>lat = 32, lng = 35\<rparr>) (baseRadiusKm 10 / 111) 10,
          ring (lat \<lparr>lat = 32, lng = 35\<rparr>) (lng \<lparr>lat = 32, lng = 35\<rparr>) (baseRadiusKm 10 * 0.8 / 111) 10,
          ring (lat \<lparr>lat = 32, lng = 35\<rparr>) (lng \<lparr>lat = 32, lng = 35\<rparr>) (baseRadiusKm 10 * 0.8 * 0.8 / 111) 10]
     \<and> currentRadius st = baseRadiusKm 10 * 0.8 * 0.8
     \<and> generateWalkingRoute ?E Israel Haifa = Inr route
     \<and> distance route = Num 13
     \<and> debugResponses route = [routeAnswer 13000 9000 (?W (baseRadiusKm 10 * 0.8 * 0.8))]"
    by (rule walking_18_16_13_accepts_third[where
          ?r1.0 = "routeAnswer 18000 9000 (?W (baseRadiusKm 10))"
          and ?r2.0 = "routeAnswer 16000 9000 (?W (baseRadiusKm 10 * 0.8))"
          and ?f1.0 = "?f 18000 (baseRadiusKm 10)" and ?fs1.0 = "[]"
          and ?f2.0 = "?f 16000 (baseRadiusKm 10 * 0.8)" and ?fs2.0 = "[]"
          and ?f3.0 = "?f 13000 (baseRadiusKm 10 * 0.8 * 0.8)" and ?fs3.0 = "[]"])
      (simp_all add: serviceWith_def echoProvider_def routeAnswer_def sumDistance_def
        shrinkingMetres_def noCity_Haifa)
  then obtain st route where
    a: "validateAndRetryRoute ?E 32 35 (baseRadiusKm 10) 10 0 (ring 32 35 (baseRadiusKm 10 / 111) 10) 8
       = (Inr (routeAnswer 13000 9000 (?W (baseRadiusKm 10 * 0.8 * 0.8))), st)"
    and b: "map snd (attemptLog st) = [?W (baseRadiusKm 10), ?W (baseRadiusKm 10 * 0.8),
            ?W (baseRadiusKm 10 * 0.8 * 0.8)]"
    and c: "generateWalkingRoute ?E Israel Haifa = Inr route" "distance route = Num 13"
    by auto
  from arg_cong[OF b, of length] have "length (attemptLog st) = 3" by simp
  with a c show ?thesis by blast
qed




lemma walkingLoop_always_short:
  assumes E: "apiKey E" "1 \<le> \<bar>cLat\<bar>" "\<bar>cLat\<bar> \<le> 89" "\<bar>cLng\<bar> \<le> 179" "0 < n"
    and short: "\<And>k cs. \<exists>r f fs m. net E k ''foot-walking'' cs = Resolved r \<and> features r = f # fs
                  \<and> sumDistance (segments f) = Num m \<and> m / 1000 < 5"
  shows "a \<le> N \<Longrightarrow> 0 \<le> currentRadius st \<Longrightarrow> currentRadius st * 1.3 ^ (N - a) \<le> 19
     \<Longrightarrow> currentWaypoints st = ring cLat cLng (currentRadius st / 111) n
     \<Longrightarrow> fst (walkingLoop E cLat cLng n N a st) = Inl (FailedToGenerateAcceptableRoute N)
       \<and> length (attemptLog (snd (walkingLoop E cLat cLng n N a st)))
           = length (attemptLog st) + (N - a)
       \<and> httpRequests (snd (walkingLoop E cLat cLng n N a st)) = httpRequests st + (N - a)"
proof (induction "N - a" arbitrary: a st)
  case 0
  then show ?case by (simp add: walkingLoop.simps)
next
  case (Suc j)
  then have lt: "a < N" and j: "j = N - Suc a" and step: "N - a = Suc (N - Suc a)" by auto
  from short[of "httpRequests st" "currentWaypoints st"] obtain r f fs m where
    r: "net E (httpRequests st) ''foot-walking'' (currentWaypoints st) = Resolved r"
      "features r = f # fs" "sumDistance (segments f) = Num m" "m / 1000 < 5" by blast
  have "(1::real) \<le> 1.3 ^ (N - a)" by (rule one_le_power) simp
  with Suc.prems(2) have "currentRadius st * 1 \<le> currentRadius st * 1.3 ^ (N - a)"
    by (intro mult_left_mono) auto
  with Suc.prems(2,3) have small: "\<bar>currentRadius st\<bar> \<le> 19" by simp
  let ?st' = "(logAttempt st (Suc (httpRequests st)))
      \<lparr>currentRadius := currentRadius st * 1.3,
       currentWaypoints := ring cLat cLng (currentRadius st * 1.3 / 111) n\<rparr>"
  have unfold: "walkingLoop E cLat cLng n N a st = walkingLoop E cLat cLng n N (Suc a) ?st'"
    using r(4)
    by (subst walkingLoop_step[OF E lt small Suc.prems(4) r(1,2,3)]) (simp add: Let_def)
  have "currentRadius ?st' * 1.3 ^ (N - Suc a) = currentRadius st * 1.3 ^ (N - a)"
    unfolding step by simp
  from this Suc.prems(3) have bound: "currentRadius ?st' * 1.3 ^ (N - Suc a) \<le> 19"
    by (rule ord_eq_le_trans)
  have "fst (walkingLoop E cLat cLng n N (Suc a) ?st') = Inl (FailedToGenerateAcceptableRoute N)
       \<and> length (attemptLog (snd (walkingLoop E cLat cLng n N (Suc a) ?st')))
           = length (attemptLog ?st') + (N - Suc a)
       \<and> httpRequests (snd (walkingLoop E cLat cLng n N (Suc a) ?st'))
           = httpRequests ?st' + (N - Suc a)"
    using lt Suc.prems(2) by (intro Suc.hyps(1)[OF j _ _ bound]) simp_all
  moreover have "length (attemptLog ?st') + (N - Suc a) = length (attemptLog st) + (N - a)"
    "httpRequests ?st' + (N - Suc a) = httpRequests st + (N - a)"
    using lt by (simp_all add: logAttempt_def)
  ultimately show ?case unfolding unfold by (simp only:)
qed












section \<open>Providers that refuse or always fall short\<close>

lemma walkingLoop_always_error:
  assumes "\<And>k. callOpenRouteService E k (currentWaypoints st) ''foot-walking'' 2 = (Inl e, Suc k)"
  shows "a < N \<Longrightarrow> walkingLoop E cLat cLng n N a st =
     (Inl e, st\<lparr>httpRequests := httpRequests st + (N - a),
                attemptLog := attemptLog st @ replicate (N - a) (currentProfile st, currentWaypoints st)\<rparr>)"
  using assms
proof (induction "N - a" arbitrary: a st)
  case 0
  then show ?case by simp
next
  case (Suc m)
  have body: "walkingBody E cLat cLng n N a st =
      walkingCatch N a e (logAttempt st (Suc (httpRequests st)))"
    by (simp add: walkingBody_def Suc.prems(2))
  show ?case
  proof (cases "Suc a = N")
    case True
    then show ?thesis using Suc.prems(1)
      by (subst walkingLoop.simps) (auto simp: body walkingCatch_def logAttempt_def)
  next
    case False
    with Suc.prems(1) have lt: "Suc a < N" by simp
    let ?st' = "logAttempt st (Suc (httpRequests st))"
    have m: "m = N - Suc a" using Suc.hyps(2) by simp
    have ih: "walkingLoop E cLat cLng n N (Suc a) ?st' =
     (Inl e, ?st'\<lparr>httpRequests := httpRequests ?st' + (N - Suc a),
                attemptLog := attemptLog ?st' @ replicate (N - Suc a) (currentProfile ?st', currentWaypoints ?st')\<rparr>)"
      by (rule Suc.hyps(1)[OF m lt]) (simp add: logAttempt_def Suc.prems(2))
    have rep: "replicate (N - a) x = x # replicate (N - Suc a) x" for x :: "string \<times> coord list"
      using lt by (simp add: Suc_diff_Suc flip: replicate_Suc)
    from lt False show ?thesis
      by (subst walkingLoop.simps) (simp add: body walkingCatch_def ih rep, simp add: logAttempt_def)
  qed
qed

lemma cyclingCatch_plain:
  "cyclingCatch (originalStart # rest) N a e st =
     (if int a = int N - 1
      then Return (Inl e) (st\<lparr>currentWaypoints := [originalStart, rotatedEnd originalStart a]\<rparr>)
      else Next (st\<lparr>currentWaypoints := [originalStart, rotatedEnd originalStart a]\<rparr>))"
  by (simp add: cyclingCatch_def rotatedEnd_def Let_def)

lemma rotatedEnd_near:
  assumes "a < 15"
  shows "\<bar>fst (rotatedEnd (x0, y0) a) - x0\<bar> \<le> 0.36 \<and> \<bar>snd (rotatedEnd (x0, y0) a) - y0\<bar> \<le> 0.36"
proof -
  have "real a \<le> 14" using assms by simp
  then have r: "0 \<le> 0.05 + real a * 0.02" "0.05 + real a * 0.02 \<le> 0.36" by simp_all
  have "\<bar>cos t * (0.05 + real a * 0.02)\<bar> \<le> 0.05 + real a * 0.02"
    "\<bar>sin t * (0.05 + real a * 0.02)\<bar> \<le> 0.05 + real a * 0.02" for t
    using r(1) by (simp_all add: abs_mult mult_le_cancel_right1)
  from this[of "real a * 45 * pi / 180"] r(2) show ?thesis
    unfolding rotatedEnd_def fst_conv snd_conv add_diff_cancel_left' by linarith
qed

lemma cyclingLoop_refused:
  assumes E: "apiKey E" "1 \<le> \<bar>y0\<bar>" "\<bar>y0\<bar> \<le> 89" "\<bar>x0\<bar> \<le> 179"
    and refuse: "\<And>k p cs. net E k p cs = Rejected (Some s)" "s = 401 \<or> s = 403"
    and N: "N \<le> 15"
  shows "a < N \<Longrightarrow> currentWaypoints st = [(x0, y0), (x1, y1)]
     \<Longrightarrow> \<bar>x1 - x0\<bar> \<le> 0.36 \<Longrightarrow> \<bar>y1 - y0\<bar> \<le> 0.36
     \<Longrightarrow> fst (cyclingLoop E ((x0, y0) # rest) N a st) = Inl (AuthenticationError s)
       \<and> length (attemptLog (snd (cyclingLoop E ((x0, y0) # rest) N a st)))
           = length (attemptLog st) + (N - a)
       \<and> httpRequests (snd (cyclingLoop E ((x0, y0) # rest) N a st)) = httpRequests st + (N - a)
       \<and> currentWaypoints (snd (cyclingLoop E ((x0, y0) # rest) N a st))
           = [(x0, y0), rotatedEnd (x0, y0) (N - 1)]"
proof (induction "N - a" arbitrary: a st x1 y1)
  case 0
  then show ?case by simp
next
  case (Suc m)
  have call: "callOpenRouteService E (httpRequests st) (currentWaypoints st) (currentProfile st) 2
      = (Inl (AuthenticationError s), Suc (httpRequests st))"
    unfolding Suc.prems(2)
    by (subst callOpenRouteService_pair[OF E Suc.prems(3,4)])
      (simp_all add: requestLoop_auth[OF refuse])
  let ?st' = "(logAttempt st (Suc (httpRequests st)))
      \<lparr>currentWaypoints := [(x0, y0), rotatedEnd (x0, y0) a]\<rparr>"
  have body: "cyclingBody E ((x0, y0) # rest) N a st =
      (if int a = int N - 1 then Return (Inl (AuthenticationError s)) ?st' else Next ?st')"
    by (simp add: cyclingBody_def call cyclingCatch_plain)
  show ?case
  proof (cases "Suc a = N")
    case True
    then have "int a = int N - 1" "N - a = 1" "N - 1 = a" by auto
    with Suc.prems(1) show ?thesis
      by (subst (1 2 3 4) cyclingLoop.simps) (simp add: body logAttempt_def)
  next
    case False
    with Suc.prems(1) have lt: "Suc a < N" and ne: "int a \<noteq> int N - 1" by auto
    have m: "m = N - Suc a" using Suc.hyps(2) by simp
    obtain x2 y2 where end': "rotatedEnd (x0, y0) a = (x2, y2)" by (cases "rotatedEnd (x0, y0) a")
    from rotatedEnd_near[of a x0 y0] lt N end'
    have near: "\<bar>x2 - x0\<bar> \<le> 0.36" "\<bar>y2 - y0\<bar> \<le> 0.36" by auto
    have unfold: "cyclingLoop E ((x0, y0) # rest) N a st = cyclingLoop E ((x0, y0) # rest) N (Suc a) ?st'"
      using Suc.prems(1) ne by (subst cyclingLoop.simps) (simp add: body)
    have ih: "fst (cyclingLoop E ((x0, y0) # rest) N (Suc a) ?st') = Inl (AuthenticationError s)
       \<and> length (attemptLog (snd (cyclingLoop E ((x0, y0) # rest) N (Suc a) ?st')))
           = length (attemptLog ?st') + (N - Suc a)
       \<and> httpRequests (snd (cyclingLoop E ((x0, y0) # rest) N (Suc a) ?st'))
           = httpRequests ?st' + (N - Suc a)
       \<and> currentWaypoints (snd (cyclingLoop E ((x0, y0) # rest) N (Suc a) ?st'))
           = [(x0, y0), rotatedEnd (x0, y0) (N - 1)]"
      by (rule Suc.hyps(1)[OF m lt _ near]) (simp add: end')
    moreover have "length (attemptLog ?st') + (N - Suc a) = length (attemptLog st) + (N - a)"
      "httpRequests ?st' + (N - Suc a) = httpRequests st + (N - a)"
      using lt by (simp_all add: logAttempt_def)
    ultimately show ?thesis unfolding unfold by (simp only:)
  qed
qed

text \<open>
  C3, as amended. When the provider answers every request with 401 or 403,
  \<^verbatim>\<open>callOpenRouteService\<close> throws after one HTTP request each time, and neither loop stops
  early: the walking loop repeats the same waypoints and the cycling loop moves the end
  point to the rotated position, until all \<open>N\<close> attempts are used (\<open>N\<close> HTTP requests);
  the authentication error is rethrown on the last attempt.
\<close>

theorem auth_error_is_retried:
  assumes "apiKey E" and "\<And>k p cs. net E k p cs = Rejected (Some s)" and "s = 401 \<or> s = 403"
    and "0 < N"
  shows "(1 \<le> \<bar>cLat\<bar> \<and> \<bar>cLat\<bar> \<le> 89 \<and> \<bar>cLng\<bar> \<le> 179 \<and> \<bar>rKm\<bar> \<le> 19 \<longrightarrow>
           validateAndRetryRoute E cLat cLng rKm n k (ring cLat cLng (rKm / 111) n) N =
             (Inl (AuthenticationError s),
              \<lparr>currentWaypoints = ring cLat cLng (rKm / 111) n, currentRadius = rKm,
               currentProfile = ''foot-walking'', httpRequests = k + N,
               attemptLog = replicate N (''foot-walking'', ring cLat cLng (rKm / 111) n)\<rparr>))
       \<and> (1 \<le> \<bar>y0\<bar> \<and> \<bar>y0\<bar> \<le> 89 \<and> \<bar>x0\<bar> \<le> 179 \<and> \<bar>x1 - x0\<bar> \<le> 0.36 \<and> \<bar>y1 - y0\<bar> \<le> 0.36
           \<and> N \<le> 15 \<longrightarrow>
           fst (generateCityRouteWithRetry E k [(x0, y0), (x1, y1)] N) = Inl (AuthenticationError s)
           \<and> length (attemptLog (snd (generateCityRouteWithRetry E k [(x0, y0), (x1, y1)] N))) = N
           \<and> httpRequests (snd (generateCityRouteWithRetry E k [(x0, y0), (x1, y1)] N)) = k + N
           \<and> currentWaypoints (snd (generateCityRouteWithRetry E k [(x0, y0), (x1, y1)] N))
               = [(x0, y0), rotatedEnd (x0, y0) (N - 1)])"
proof (rule conjI; rule impI)
  assume c: "1 \<le> \<bar>cLat\<bar> \<and> \<bar>cLat\<bar> \<le> 89 \<and> \<bar>cLng\<bar> \<le> 179 \<and> \<bar>rKm\<bar> \<le> 19"
  let ?W = "ring cLat cLng (rKm / 111) n"
  have call: "callOpenRouteService E j ?W ''foot-walking'' 2 = (Inl (AuthenticationError s), Suc j)"
    for j
    using c assms(1)
    by (intro callOpenRouteService_auth ring_near ring_valid assms(2,3)) auto
  show "validateAndRetryRoute E cLat cLng rKm n k ?W N =
             (Inl (AuthenticationError s),
              \<lparr>currentWaypoints = ?W, currentRadius = rKm,
               currentProfile = ''foot-walking'', httpRequests = k + N,
               attemptLog = replicate N (''foot-walking'', ?W)\<rparr>)"
    unfolding validateAndRetryRoute_def
    by (subst walkingLoop_always_error[where e = "AuthenticationError s"])
      (simp_all add: call assms(4))
next
  assume c: "1 \<le> \<bar>y0\<bar> \<and> \<bar>y0\<bar> \<le> 89 \<and> \<bar>x0\<bar> \<le> 179 \<and> \<bar>x1 - x0\<bar> \<le> 0.36 \<and> \<bar>y1 - y0\<bar> \<le> 0.36
           \<and> N \<le> 15"
  let ?st = "\<lparr>currentWaypoints = [(x0, y0), (x1, y1)], currentRadius = 0,
        currentProfile = cyclingProfiles ! 0, httpRequests = k, attemptLog = []\<rparr>"
  from c have safe: "1 \<le> \<bar>y0\<bar>" "\<bar>y0\<bar> \<le> 89" "\<bar>x0\<bar> \<le> 179" and N: "N \<le> 15"
    and near: "\<bar>x1 - x0\<bar> \<le> 0.36" "\<bar>y1 - y0\<bar> \<le> 0.36" by auto
  from cyclingLoop_refused[OF assms(1) safe assms(2,3) N assms(4) _ near, of ?st "[(x1, y1)]"]
  show "fst (generateCityRouteWithRetry E k [(x0, y0), (x1, y1)] N) = Inl (AuthenticationError s)
           \<and> length (attemptLog (snd (generateCityRouteWithRetry E k [(x0, y0), (x1, y1)] N))) = N
           \<and> httpRequests (snd (generateCityRouteWithRetry E k [(x0, y0), (x1, y1)] N)) = k + N
           \<and> currentWaypoints (snd (generateCityRouteWithRetry E k [(x0, y0), (x1, y1)] N))
               = [(x0, y0), rotatedEnd (x0, y0) (N - 1)]"
    by (simp add: generateCityRouteWithRetry_def)
qed

theorem auth_error_is_retried_witness:
  "validateAndRetryRoute (serviceWith (refusingProvider 403)) 32 35 (baseRadiusKm 10) 10 0
      (ring 32 35 (baseRadiusKm 10 / 111) 10) 3 =
     (Inl (AuthenticationError 403),
      \<lparr>currentWaypoints = ring 32 35 (baseRadiusKm 10 / 111) 10, currentRadius = baseRadiusKm 10,
       currentProfile = ''foot-walking'', httpRequests = 3,
       attemptLog = replicate 3 (''foot-walking'', ring 32 35 (baseRadiusKm 10 / 111) 10)\<rparr>)
   \<and> httpRequests (snd (generateCityRouteWithRetry (serviceWith (refusingProvider 403)) 0
        [(35, 32), (35, 32.2)] 3)) = 3"
  using auth_error_is_retried [of "serviceWith (refusingProvider 403)" 403 3
      32 35 "baseRadiusKm 10" 10 0 32 35 35 "32.2"] baseRadiusKm_10_range
  by (simp add: serviceWith_def refusingProvider_def)

text \<open>
  Against C3 as stated. A provider that answers 401 from the first request on: both loops
  use all 8 attempts, and the cycling loop has replaced its waypoints.
\<close>

theorem auth_error_uses_all_attempts:
  "fst (validateAndRetryRoute (serviceWith (refusingProvider 401)) 32 35 (baseRadiusKm 10) 10 0
          (ring 32 35 (baseRadiusKm 10 / 111) 10) 8) = Inl (AuthenticationError 401)
   \<and> length (attemptLog (snd (validateAndRetryRoute (serviceWith (refusingProvider 401)) 32 35
          (baseRadiusKm 10) 10 0 (ring 32 35 (baseRadiusKm 10 / 111) 10) 8))) = 8
   \<and> fst (generateCityRouteWithRetry (serviceWith (refusingProvider 401)) 0
          [(35, 32), (35, 32.2)] 8) = Inl (AuthenticationError 401)
   \<and> length (attemptLog (snd (generateCityRouteWithRetry (serviceWith (refusingProvider 401)) 0
          [(35, 32), (35, 32.2)] 8))) = 8
   \<and> currentWaypoints (snd (generateCityRouteWithRetry (serviceWith (refusingProvider 401)) 0
          [(35, 32), (35, 32.2)] 8)) \<noteq> [(35, 32), (35, 32.2)]"
proof -
  let ?E = "serviceWith (refusingProvider 401)"
  let ?W = "ring 32 35 (baseRadiusKm 10 / 111) 10"
  have call: "callOpenRouteService ?E j ?W ''foot-walking'' 2 = (Inl (AuthenticationError 401), Suc j)"
    for j
    using baseRadiusKm_10_range
    by (intro callOpenRouteService_auth ring_near ring_valid)
      (auto simp: serviceWith_def refusingProvider_def)
  have walk: "validateAndRetryRoute ?E 32 35 (baseRadiusKm 10) 10 0 ?W 8 =
      (Inl (AuthenticationError 401),
       \<lparr>currentWaypoints = ?W, currentRadius = baseRadiusKm 10,
        currentProfile = ''foot-walking'', httpRequests = 8,
        attemptLog = replicate 8 (''foot-walking'', ?W)\<rparr>)"
    unfolding validateAndRetryRoute_def
    by (subst walkingLoop_always_error[where e = "AuthenticationError 401"]) (simp_all add: call)
  let ?st = "\<lparr>currentWaypoints = [(35, 32), (35, 32.2)], currentRadius = 0,
        currentProfile = cyclingProfiles ! 0, httpRequests = 0, attemptLog = []\<rparr>"
  have cyc: "fst (cyclingLoop ?E [(35, 32), (35, 32.2)] 8 0 ?st) = Inl (AuthenticationError 401)
       \<and> length (attemptLog (snd (cyclingLoop ?E [(35, 32), (35, 32.2)] 8 0 ?st)))
           = length (attemptLog ?st) + (8 - 0)
       \<and> httpRequests (snd (cyclingLoop ?E [(35, 32), (35, 32.2)] 8 0 ?st))
           = httpRequests ?st + (8 - 0)
       \<and> currentWaypoints (snd (cyclingLoop ?E [(35, 32), (35, 32.2)] 8 0 ?st))
           = [(35, 32), rotatedEnd (35, 32) (8 - 1)]"
    by (rule cyclingLoop_refused[where s = 401 and ?x1.0 = 35 and ?y1.0 = "32.2"])
      (simp_all add: serviceWith_def refusingProvider_def)
  have "fst (rotatedEnd (35, 32) 7) \<noteq> 35"
  proof -
    have "7 * 45 * pi / 180 = 2 * pi - pi / 4" by simp
    then have "cos (7 * 45 * pi / 180) = cos (pi / 4)" by (simp only: cos_2pi_minus)
    then have c: "cos (real 7 * 45 * pi / 180) = sqrt 2 / 2" by (simp add: cos_45)
    show ?thesis unfolding rotatedEnd_def c by simp
  qed
  then have "rotatedEnd (35, 32) 7 \<noteq> (35, 32.2)" by auto
  with walk cyc show ?thesis by (simp add: generateCityRouteWithRetry_def)
qed

text \<open>
  C5, on the code: a provider that always measures 2 km. The walking loop makes exactly 8
  attempts and then throws the error of the loop's end, which carries no distance; the
  branch of the final validation that reports the best possible distance is not reached.
\<close>

theorem always_2_km_ends_in_bare_error:
  "fst (validateAndRetryRoute (serviceWith (echoProvider (steadyMetres 2000) 1500)) 32 35
          (baseRadiusKm 10) 10 0 (ring 32 35 (baseRadiusKm 10 / 111) 10) 8)
     = Inl (FailedToGenerateAcceptableRoute 8)
   \<and> length (attemptLog (snd (validateAndRetryRoute (serviceWith (echoProvider (steadyMetres 2000) 1500))
          32 35 (baseRadiusKm 10) 10 0 (ring 32 35 (baseRadiusKm 10 / 111) 10) 8))) = 8
   \<and> generateWalkingRoute (serviceWith (echoProvider (steadyMetres 2000) 1500)) Israel Haifa
       = Inl (FailedToGenerateAcceptableRoute 8)
   \<and> generateWalkingRoute (serviceWith (echoProvider (steadyMetres 2000) 1500)) Israel Haifa
       \<noteq> Inl (BestPossibleRouteIs (Num 2))"
proof -
  let ?E = "serviceWith (echoProvider (steadyMetres 2000) 1500)"
  let ?W = "ring 32 35 (baseRadiusKm 10 / 111) 10"
  let ?st = "\<lparr>currentWaypoints = ?W, currentRadius = baseRadiusKm 10,
       currentProfile = ''foot-walking'', httpRequests = 0, attemptLog = []\<rparr>"
  have p: "(1.3::real) ^ 8 \<le> 19" by (simp add: power_divide)
  have "baseRadiusKm 10 * 1.3 ^ 8 \<le> 1 * 19"
    by (rule mult_mono) (use baseRadiusKm_10 p in auto)
  then have bound: "currentRadius ?st * 1.3 ^ (8 - 0) \<le> 19" by simp
  have loop: "fst (walkingLoop ?E 32 35 10 8 0 ?st) = Inl (FailedToGenerateAcceptableRoute 8)
       \<and> length (attemptLog (snd (walkingLoop ?E 32 35 10 8 0 ?st)))
           = length (attemptLog ?st) + (8 - 0)
       \<and> httpRequests (snd (walkingLoop ?E 32 35 10 8 0 ?st)) = httpRequests ?st + (8 - 0)"
    using baseRadiusKm_10_range(1)
    by (intro walkingLoop_always_short[OF _ _ _ _ _ _ _ _ bound])
      (simp_all add: serviceWith_def echoProvider_def routeAnswer_def sumDistance_def)
  have geo: "geocodeLocation ?E Israel Haifa = Geocoded \<lparr>lat = 32, lng = 35\<rparr>"
    by (simp add: serviceWith_def)
  from loop show ?thesis
    by (simp add: generateWalkingRoute_located[OF noCity_Haifa geo] validateAndRetryRoute_def)
qed

section \<open>Cycling: measured distances, duration and day chaining\<close>

lemma cyclingBody_returns_measured:
  assumes "cyclingBody E ws N a st = Return (Inr (r, d)) st'"
  shows "\<exists>f fs. features r = f # fs \<and> d = numOver (sumDistance (segments f)) 1000"
  using assms
  by (auto simp: cyclingBody_def cyclingTry_def cyclingCatch_def firstFeature_def Let_def
      split: prod.splits sum.splits if_splits list.splits)

lemma cyclingLoop_returns_measured:
  "cyclingLoop E ws N a st = (Inr (r, d), st')
   \<Longrightarrow> \<exists>f fs. features r = f # fs \<and> d = numOver (sumDistance (segments f)) 1000"
proof (induction E ws N a st rule: cyclingLoop.induct)
  case (1 E ws N a st)
  show ?case
  proof (cases "a < N")
    case False
    with "1.prems" show ?thesis by (simp add: cyclingLoop.simps)
  next
    case True
    show ?thesis
    proof (cases "cyclingBody E ws N a st")
      case (Return res st'')
      with True "1.prems" have "cyclingBody E ws N a st = Return (Inr (r, d)) st'"
        by (simp add: cyclingLoop.simps)
      then show ?thesis by (rule cyclingBody_returns_measured)
    next
      case (Next st'')
      with True "1.prems" have "cyclingLoop E ws N (Suc a) st'' = (Inr (r, d), st')"
        by (simp add: cyclingLoop.simps)
      with "1.IH"[OF True Next] show ?thesis .
    qed
  qed
qed

lemma cyclingRouteOf_Inr:
  assumes "cyclingRouteOf r1 d1 r2 d2 = Inr route"
  shows "\<exists>f1 fs1 f2 fs2. features r1 = f1 # fs1 \<and> features r2 = f2 # fs2
      \<and> debugResponses route = [r1, r2] \<and> distance route = numAdd d1 d2
      \<and> estimatedDuration route =
          cyclingDuration (numAdd (sumDuration (segments f1)) (sumDuration (segments f2)))
            (numAdd d1 d2)"
  using assms
  by (auto simp: cyclingRouteOf_def processCyclingRoute_def Let_def
      split: list.splits sum.splits)

lemma generateCyclingRoute_Inr:
  assumes "generateCyclingRoute E country city = Inr route"
  shows "\<exists>w1 w2 k r1 d1 r2 d2 st1 st2.
      generateCityRouteWithRetry E 0 w1 8 = (Inr (r1, d1), st1)
      \<and> generateCityRouteWithRetry E k w2 8 = (Inr (r2, d2), st2)
      \<and> cyclingRouteOf r1 d1 r2 d2 = Inr route"
  using assms
  by (auto simp: generateCyclingRoute_def cyclingSearch_def Let_def
      split: sum.splits geocoded.splits prod.splits) blast

text \<open>
  C9. A cycling route that is returned carries its two day responses. When the segment
  distances and durations of both days are numbers, the route's distance is the sum of all
  segment distances in km, and \<open>estimatedDuration\<close> is the sum of all segment durations
  divided by 60, unless that is below 10 minutes while the distance is above 20 km: then it
  is (distance / 20) * 60. A segment duration that is not a number makes the summed
  duration, and with it \<open>estimatedDuration\<close>, \<^verbatim>\<open>NaN\<close>.
\<close>

theorem cycling_duration_rule:
  assumes "generateCyclingRoute E country city = Inr route"
  shows "\<exists>r1 r2 f1 fs1 f2 fs2.
      debugResponses route = [r1, r2] \<and> features r1 = f1 # fs1 \<and> features r2 = f2 # fs2
      \<and> (\<forall>ms1 ms2 ds1 ds2.
            map seg_distance (segments f1) = map Num ms1
            \<and> map seg_distance (segments f2) = map Num ms2
            \<and> map seg_duration (segments f1) = map Num ds1
            \<and> map seg_duration (segments f2) = map Num ds2 \<longrightarrow>
            distance route = Num (sum_list ms1 / 1000 + sum_list ms2 / 1000)
            \<and> estimatedDuration route =
                Num (if (sum_list ds1 + sum_list ds2) / 60 < 10
                        \<and> sum_list ms1 / 1000 + sum_list ms2 / 1000 > 20
                     then ((sum_list ms1 / 1000 + sum_list ms2 / 1000) / 20) * 60
                     else (sum_list ds1 + sum_list ds2) / 60))
      \<and> (NaN \<in> seg_duration ` set (segments f1 @ segments f2) \<longrightarrow>
            estimatedDuration route = NaN)"
proof -
  from generateCyclingRoute_Inr[OF assms] obtain w1 w2 k r1 d1 r2 d2 st1 st2 where
    day1: "generateCityRouteWithRetry E 0 w1 8 = (Inr (r1, d1), st1)"
    and day2: "generateCityRouteWithRetry E k w2 8 = (Inr (r2, d2), st2)"
    and route: "cyclingRouteOf r1 d1 r2 d2 = Inr route" by blast
  from cyclingRouteOf_Inr[OF route] obtain f1 fs1 f2 fs2 where
    f: "features r1 = f1 # fs1" "features r2 = f2 # fs2" "debugResponses route = [r1, r2]"
    and dist: "distance route = numAdd d1 d2"
    and dur: "estimatedDuration route =
          cyclingDuration (numAdd (sumDuration (segments f1)) (sumDuration (segments f2)))
            (numAdd d1 d2)"
    by blast
  from cyclingLoop_returns_measured[OF day1[unfolded generateCityRouteWithRetry_def]] f(1)
  have d1: "d1 = numOver (sumDistance (segments f1)) 1000" by auto
  from cyclingLoop_returns_measured[OF day2[unfolded generateCityRouteWithRetry_def]] f(2)
  have d2: "d2 = numOver (sumDistance (segments f2)) 1000" by auto
  have numeric: "distance route = Num (sum_list ms1 / 1000 + sum_list ms2 / 1000)
            \<and> estimatedDuration route =
                Num (if (sum_list ds1 + sum_list ds2) / 60 < 10
                        \<and> sum_list ms1 / 1000 + sum_list ms2 / 1000 > 20
                     then ((sum_list ms1 / 1000 + sum_list ms2 / 1000) / 20) * 60
                     else (sum_list ds1 + sum_list ds2) / 60)"
    if "map seg_distance (segments f1) = map Num ms1
            \<and> map seg_distance (segments f2) = map Num ms2
            \<and> map seg_duration (segments f1) = map Num ds1
            \<and> map seg_duration (segments f2) = map Num ds2" for ms1 ms2 ds1 ds2
  proof -
    from that have "sumDistance (segments f1) = Num (sum_list ms1)"
      "sumDistance (segments f2) = Num (sum_list ms2)"
      "sumDuration (segments f1) = Num (sum_list ds1)"
      "sumDuration (segments f2) = Num (sum_list ds2)"
      by (simp_all add: sumDistance_Num sumDuration_Num)
    with dist dur d1 d2 show ?thesis by (simp add: cyclingDuration_def Let_def)
  qed
  have nan: "estimatedDuration route = NaN"
    if "NaN \<in> seg_duration ` set (segments f1 @ segments f2)"
  proof -
    from that have "sumDuration (segments f1) = NaN \<or> sumDuration (segments f2) = NaN"
      by (auto simp: sumDuration_NaN)
    then have "numAdd (sumDuration (segments f1)) (sumDuration (segments f2)) = NaN"
      by (cases "sumDuration (segments f1)") auto
    with dur show ?thesis by (simp add: cyclingDuration_def Let_def)
  qed
  from f numeric nan show ?thesis by blast
qed

lemma cyclingLoop_step:
  assumes "apiKey E" "1 \<le> \<bar>y0\<bar>" "\<bar>y0\<bar> \<le> 89" "\<bar>x0\<bar> \<le> 179"
    "\<bar>x1 - x0\<bar> \<le> 0.36" "\<bar>y1 - y0\<bar> \<le> 0.36" "a < N"
    and "currentWaypoints st = [(x0, y0), (x1, y1)]"
    and "net E (httpRequests st) (currentProfile st) [(x0, y0), (x1, y1)] = Resolved r"
    and "features r = f # fs" "sumDistance (segments f) = Num m"
  shows "cyclingLoop E ws N a st =
     (let d = m / 1000; st1 = logAttempt st (Suc (httpRequests st)) in
      if 5 \<le> d \<and> d \<le> 60 then (Inr (r, Num d), st1)
      else if d < 5 \<and> a < 3 then
        cyclingLoop E ws N (Suc a)
          (st1\<lparr>currentWaypoints := [(x0, y0), (x0 + (x1 - x0) * 2, y0 + (y1 - y0) * 2)]\<rparr>)
      else if d > 60 \<and> a < 3 then
        cyclingLoop E ws N (Suc a)
          (st1\<lparr>currentWaypoints := [(x0, y0), (x0 + (x1 - x0) * 0.6, y0 + (y1 - y0) * 0.6)]\<rparr>)
      else (Inr (r, Num d), st1))"
proof -
  have call: "callOpenRouteService E (httpRequests st) (currentWaypoints st) (currentProfile st) 2
      = (Inr r, Suc (httpRequests st))"
    unfolding assms(8)
    by (subst callOpenRouteService_pair[OF assms(1-6)])
      (simp_all add: requestLoop_resolved[OF assms(9)])
  show ?thesis
    using assms(7)
    by (subst cyclingLoop.simps)
      (simp add: cyclingBody_def call[unfolded assms(8)] cyclingTry_def firstFeature_def
        assms(10,11) Let_def stretchEnd_def logAttempt_def assms(8))
qed

lemma day_accepted_at_once:
  assumes "apiKey E" "1 \<le> \<bar>y0\<bar>" "\<bar>y0\<bar> \<le> 89" "\<bar>x0\<bar> \<le> 179"
    "\<bar>x1 - x0\<bar> \<le> 0.36" "\<bar>y1 - y0\<bar> \<le> 0.36"
    and "net E k ''cycling-road'' [(x0, y0), (x1, y1)] = Resolved r"
    and "features r = f # fs" "sumDistance (segments f) = Num m"
    and "5 \<le> m / 1000" "m / 1000 \<le> 60"
  shows "generateCityRouteWithRetry E k [(x0, y0), (x1, y1)] 8 =
     (Inr (r, Num (m / 1000)),
      \<lparr>currentWaypoints = [(x0, y0), (x1, y1)], currentRadius = 0,
       currentProfile = ''cycling-road'', httpRequests = Suc k,
       attemptLog = [(''cycling-road'', [(x0, y0), (x1, y1)])]\<rparr>)"
  unfolding generateCityRouteWithRetry_def cyclingProfiles_def nth_Cons_0
  using assms(7,10,11)
  by (subst cyclingLoop_step[OF assms(1-6) _ _ _ assms(8,9)]) (simp_all add: logAttempt_def)

lemma cyclingSeeds_fixture:
  "cyclingSeeds (serviceWith provider) \<lparr>lat = 32, lng = 35\<rparr> =
     ([(35, 32), (35, 32 + 15 / 111)], [(35, 32 + 15 / 111), (35, 32)])"
  by (simp add: cyclingSeeds_def serviceWith_def Let_def)

lemma resolveCity_Haifa: "resolveCity E Israel Haifa = Inr Haifa"
  by (simp add: resolveCity_def noCity_Haifa)

lemma day1_fixture:
  "generateCityRouteWithRetry (serviceWith (echoProvider shortThenFine 120)) 0
      [(35, 32), (35, 32 + 15 / 111)] 8 =
     (Inr (routeAnswer 30000 120 [(35, 32), (35, 32 + 30 / 111)], Num 30),
      \<lparr>currentWaypoints = [(35, 32), (35, 32 + 30 / 111)], currentRadius = 0,
       currentProfile = ''cycling-road'', httpRequests = 2,
       attemptLog = [(''cycling-road'', [(35, 32), (35, 32 + 15 / 111)]),
                     (''cycling-road'', [(35, 32), (35, 32 + 30 / 111)])]\<rparr>)"
proof -
  let ?E = "serviceWith (echoProvider shortThenFine 120)"
  let ?ws = "[(35, 32), (35, 32 + 15 / 111)] :: coord list"
  let ?f = "\<lambda>m g. \<lparr>segments = [\<lparr>seg_distance = Num m, seg_duration = Num 120,
                                     seg_elevation_gain = Num 0\<rparr>],
             summary_duration = None, coordinates = g\<rparr>"
  let ?st0 = "\<lparr>currentWaypoints = ?ws, currentRadius = 0,
        currentProfile = ''cycling-road'', httpRequests = 0, attemptLog = []\<rparr>"
  let ?st1 = "\<lparr>currentWaypoints = [(35, 32), (35, 32 + 30 / 111)], currentRadius = 0,
        currentProfile = ''cycling-road'', httpRequests = Suc 0,
        attemptLog = [(''cycling-road'', ?ws)]\<rparr>"
  have s0: "cyclingLoop ?E ?ws 8 0 ?st0 = cyclingLoop ?E ?ws 8 (Suc 0) ?st1"
    by (subst cyclingLoop_step[where ?x0.0 = 35 and ?y0.0 = 32 and ?x1.0 = 35
          and ?y1.0 = "32 + 15 / 111" and r = "routeAnswer 2000 120 ?ws"
          and f = "?f 2000 ?ws" and fs = "[]" and m = 2000])
      (simp_all add: serviceWith_def echoProvider_def routeAnswer_def sumDistance_def
        shortThenFine_def logAttempt_def)
  have s1: "cyclingLoop ?E ?ws 8 (Suc 0) ?st1 =
      (Inr (routeAnswer 30000 120 [(35, 32), (35, 32 + 30 / 111)], Num 30),
       logAttempt ?st1 (Suc (Suc 0)))"
    by (subst cyclingLoop_step[where ?x0.0 = 35 and ?y0.0 = 32 and ?x1.0 = 35
          and ?y1.0 = "32 + 30 / 111"
          and r = "routeAnswer 30000 120 [(35, 32), (35, 32 + 30 / 111)]"
          and f = "?f 30000 [(35, 32), (35, 32 + 30 / 111)]" and fs = "[]" and m = 30000])
      (simp_all add: serviceWith_def echoProvider_def routeAnswer_def sumDistance_def
        shortThenFine_def)
  show ?thesis
    unfolding generateCityRouteWithRetry_def cyclingProfiles_def nth_Cons_0 s0 s1
    by (simp add: logAttempt_def)
qed

lemma day2_fixture:
  "generateCityRouteWithRetry (serviceWith (echoProvider shortThenFine 120)) 2
      [(35, 32 + 15 / 111), (35, 32)] 8 =
     (Inr (routeAnswer 30000 120 [(35, 32 + 15 / 111), (35, 32)], Num 30),
      \<lparr>currentWaypoints = [(35, 32 + 15 / 111), (35, 32)], currentRadius = 0,
       currentProfile = ''cycling-road'', httpRequests = 3,
       attemptLog = [(''cycling-road'', [(35, 32 + 15 / 111), (35, 32)])]\<rparr>)"
proof -
  let ?E = "serviceWith (echoProvider shortThenFine 120)"
  let ?ws = "[(35, 32 + 15 / 111), (35, 32)] :: coord list"
  let ?f = "\<lparr>segments = [\<lparr>seg_distance = Num 30000, seg_duration = Num 120,
                              seg_elevation_gain = Num 0\<rparr>],
             summary_duration = None, coordinates = ?ws\<rparr>"
  let ?st0 = "\<lparr>currentWaypoints = ?ws, currentRadius = 0,
        currentProfile = ''cycling-road'', httpRequests = 2, attemptLog = []\<rparr>"
  have s0: "cyclingLoop ?E ?ws 8 0 ?st0 =
      (Inr (routeAnswer 30000 120 ?ws, Num 30), logAttempt ?st0 (Suc 2))"
    by (subst cyclingLoop_step[where ?x0.0 = 35 and ?y0.0 = "32 + 15 / 111" and ?x1.0 = 35
          and ?y1.0 = 32 and r = "routeAnswer 30000 120 ?ws" and f = ?f and fs = "[]"
          and m = 30000])
      (simp_all add: serviceWith_def echoProvider_def routeAnswer_def sumDistance_def
        shortThenFine_def)
  show ?thesis
    unfolding generateCityRouteWithRetry_def cyclingProfiles_def nth_Cons_0 s0
    by (simp add: logAttempt_def)
qed

lemma cycling_fixture:
  "generateCyclingRoute (serviceWith (echoProvider shortThenFine 120)) Israel Haifa =
     cyclingRouteOf (routeAnswer 30000 120 [(35, 32), (35, 32 + 30 / 111)]) (Num 30)
       (routeAnswer 30000 120 [(35, 32 + 15 / 111), (35, 32)]) (Num 30)"
proof -
  let ?E = "serviceWith (echoProvider shortThenFine 120)"
  have geo: "geocodeLocation ?E Israel Haifa = Geocoded \<lparr>lat = 32, lng = 35\<rparr>"
    by (simp add: serviceWith_def)
  have search: "cyclingSearch ?E [(35, 32), (35, 32 + 15 / 111)] [(35, 32 + 15 / 111), (35, 32)]
      = Inr ((routeAnswer 30000 120 [(35, 32), (35, 32 + 30 / 111)], Num 30),
             (routeAnswer 30000 120 [(35, 32 + 15 / 111), (35, 32)], Num 30))"
    unfolding cyclingSearch_def day1_fixture Let_def prod.case sum.case One_nat_def
      nth_Cons_Suc nth_Cons_0 loop_state.select_convs day2_fixture
    by (rule refl)
  show ?thesis
    unfolding generateCyclingRoute_def resolveCity_Haifa sum.case geo geocoded.case
      cyclingSeeds_fixture prod.case search
    by (rule refl)
qed

text \<open>
  A provider that gives the same segments to every request, with numeric distances that
  sum to between 5 and 60 km: both days are accepted on their first attempt.
\<close>

lemma cycling_segments_fixture:
  assumes "map fst segs = map Num ms" "5 \<le> sum_list ms / 1000" "sum_list ms / 1000 \<le> 60"
  shows "generateCyclingRoute (serviceWith (segmentsProvider segs)) Israel Haifa =
     cyclingRouteOf (segmentsAnswer segs [(35, 32), (35, 32 + 15 / 111)])
       (Num (sum_list ms / 1000))
       (segmentsAnswer segs [(35, 32 + 15 / 111), (35, 32)]) (Num (sum_list ms / 1000))"
proof -
  let ?E = "serviceWith (segmentsProvider segs)"
  let ?mk = "\<lambda>(metres, seconds). \<lparr>seg_distance = metres, seg_duration = seconds,
                                     seg_elevation_gain = Num 0\<rparr>"
  let ?f = "\<lambda>g. \<lparr>segments = map ?mk segs, summary_duration = None, coordinates = g\<rparr>"
  have "map seg_distance (map ?mk segs) = map fst segs" by (induction segs) auto
  with assms(1) have sum: "sumDistance (segments (?f g)) = Num (sum_list ms)" for g
    by (simp add: sumDistance_Num)
  have geo: "geocodeLocation ?E Israel Haifa = Geocoded \<lparr>lat = 32, lng = 35\<rparr>"
    by (simp add: serviceWith_def)
  have day1: "generateCityRouteWithRetry ?E 0 [(35, 32), (35, 32 + 15 / 111)] 8 =
     (Inr (segmentsAnswer segs [(35, 32), (35, 32 + 15 / 111)], Num (sum_list ms / 1000)),
      \<lparr>currentWaypoints = [(35, 32), (35, 32 + 15 / 111)], currentRadius = 0,
       currentProfile = ''cycling-road'', httpRequests = Suc 0,
       attemptLog = [(''cycling-road'', [(35, 32), (35, 32 + 15 / 111)])]\<rparr>)"
    by (rule day_accepted_at_once[where f = "?f [(35, 32), (35, 32 + 15 / 111)]" and fs = "[]",
          OF _ _ _ _ _ _ _ _ sum assms(2,3)])
      (simp_all add: serviceWith_def segmentsProvider_def segmentsAnswer_def)
  have day2: "generateCityRouteWithRetry ?E (Suc 0) [(35, 32 + 15 / 111), (35, 32)] 8 =
     (Inr (segmentsAnswer segs [(35, 32 + 15 / 111), (35, 32)], Num (sum_list ms / 1000)),
      \<lparr>currentWaypoints = [(35, 32 + 15 / 111), (35, 32)], currentRadius = 0,
       currentProfile = ''cycling-road'', httpRequests = Suc (Suc 0),
       attemptLog = [(''cycling-road'', [(35, 32 + 15 / 111), (35, 32)])]\<rparr>)"
    by (rule day_accepted_at_once[where f = "?f [(35, 32 + 15 / 111), (35, 32)]" and fs = "[]",
          OF _ _ _ _ _ _ _ _ sum assms(2,3)])
      (simp_all add: serviceWith_def segmentsProvider_def segmentsAnswer_def)
  have search: "cyclingSearch ?E [(35, 32), (35, 32 + 15 / 111)] [(35, 32 + 15 / 111), (35, 32)]
      = Inr ((segmentsAnswer segs [(35, 32), (35, 32 + 15 / 111)], Num (sum_list ms / 1000)),
             (segmentsAnswer segs [(35, 32 + 15 / 111), (35, 32)], Num (sum_list ms / 1000)))"
    unfolding cyclingSearch_def day1 Let_def prod.case sum.case One_nat_def
      nth_Cons_Suc nth_Cons_0 loop_state.select_convs day2
    by (rule refl)
  show ?thesis
    unfolding generateCyclingRoute_def resolveCity_Haifa sum.case geo geocoded.case
      cyclingSeeds_fixture prod.case search
    by (rule refl)
qed

lemma cyclingRouteOf_segments:
  assumes "g1 \<noteq> []" "g2 \<noteq> []"
  shows "\<exists>route. cyclingRouteOf (segmentsAnswer segs g1) d1 (segmentsAnswer segs g2) d2 = Inr route
     \<and> debugResponses route = [segmentsAnswer segs g1, segmentsAnswer segs g2]"
  using assms
  by (cases g1; cases g2)
    (simp_all add: cyclingRouteOf_def processCyclingRoute_def dayDetail_def segmentsAnswer_def
      Let_def)

text \<open>
  C2, on the code: the provider measures 2 km on the first request and 30 km afterwards, and
  routes exactly through the coordinates it is given. Day 1 is found on its second attempt,
  with the end point moved twice as far out; day 2 is still searched from the end point
  first proposed for day 1 (\<^verbatim>\<open>day1Waypoints[1]\<close>), so the reported start of day 2 is
  not the reported end of day 1.
\<close>

theorem day_two_starts_at_the_proposed_end:
  "\<exists>route.
     generateCyclingRoute (serviceWith (echoProvider shortThenFine 120)) Israel Haifa
       = Inr route
     \<and> isMultiDay route
     \<and> day_endPoint (dayDetails route ! 0) = \<lparr>lat = 32 + 30 / 111, lng = 35\<rparr>
     \<and> day_startPoint (dayDetails route ! 1) = \<lparr>lat = 32 + 15 / 111, lng = 35\<rparr>
     \<and> day_startPoint (dayDetails route ! 1) \<noteq> day_endPoint (dayDetails route ! 0)"
  by (simp add: cycling_fixture cyclingRouteOf_def processCyclingRoute_def dayDetail_def
      routeAnswer_def toLatLng_def Let_def)

text \<open>
  Three runs of the duration rule. One segment of 30 km and 120 s per day: 4 minutes for
  60 km, so the estimate of 180 minutes is used. Two segments of 12 km in 2400 s and 13 km
  in 2700 s per day: 170 minutes for 50 km, kept. Two segments of 4 km in 100 s and 140 s
  per day: 8 minutes for 16 km, kept because the distance is not above 20 km.
\<close>

theorem cycling_duration_rule_witness:
  "(\<exists>route.
      generateCyclingRoute (serviceWith (echoProvider shortThenFine 120)) Israel Haifa
        = Inr route
      \<and> distance route = Num 60 \<and> estimatedDuration route = Num 180)
   \<and> (\<exists>route.
      generateCyclingRoute
          (serviceWith (segmentsProvider [(Num 12000, Num 2400), (Num 13000, Num 2700)]))
          Israel Haifa = Inr route
      \<and> distance route = Num 50 \<and> estimatedDuration route = Num 170)
   \<and> (\<exists>route.
      generateCyclingRoute
          (serviceWith (segmentsProvider [(Num 4000, Num 100), (Num 4000, Num 140)]))
          Israel Haifa = Inr route
      \<and> distance route = Num 16 \<and> estimatedDuration route = Num 8)"
proof (intro conjI)
  let ?E = "serviceWith (echoProvider shortThenFine 120)"
  let ?r1 = "routeAnswer 30000 120 [(35, 32), (35, 32 + 30 / 111)]"
  let ?r2 = "routeAnswer 30000 120 [(35, 32 + 15 / 111), (35, 32)]"
  have "cyclingRouteOf ?r1 (Num 30) ?r2 (Num 30) \<noteq> Inl e" for e
    by (simp add: cyclingRouteOf_def processCyclingRoute_def dayDetail_def routeAnswer_def Let_def)
  then obtain route where gen: "generateCyclingRoute ?E Israel Haifa = Inr route"
    unfolding cycling_fixture[symmetric]
    by (cases "generateCyclingRoute ?E Israel Haifa") auto
  then have dbg: "debugResponses route = [?r1, ?r2]"
    by (auto simp: cycling_fixture cyclingRouteOf_def processCyclingRoute_def dayDetail_def
        routeAnswer_def Let_def)
  from cycling_duration_rule[OF gen] obtain r1 r2 f1 fs1 f2 fs2 where
    d: "debugResponses route = [r1, r2]"
    and f: "features r1 = f1 # fs1" "features r2 = f2 # fs2"
    and rule: "\<forall>ms1 ms2 ds1 ds2.
            map seg_distance (segments f1) = map Num ms1
            \<and> map seg_distance (segments f2) = map Num ms2
            \<and> map seg_duration (segments f1) = map Num ds1
            \<and> map seg_duration (segments f2) = map Num ds2 \<longrightarrow>
            distance route = Num (sum_list ms1 / 1000 + sum_list ms2 / 1000)
            \<and> estimatedDuration route =
                Num (if (sum_list ds1 + sum_list ds2) / 60 < 10
                        \<and> sum_list ms1 / 1000 + sum_list ms2 / 1000 > 20
                     then ((sum_list ms1 / 1000 + sum_list ms2 / 1000) / 20) * 60
                     else (sum_list ds1 + sum_list ds2) / 60)"
    by blast
  from d dbg have "r1 = ?r1" "r2 = ?r2" by simp_all
  with f have "map seg_distance (segments f1) = map Num [30000]
      \<and> map seg_distance (segments f2) = map Num [30000]
      \<and> map seg_duration (segments f1) = map Num [120]
      \<and> map seg_duration (segments f2) = map Num [120]"
    by (auto simp: routeAnswer_def)
  with rule have "distance route = Num 60 \<and> estimatedDuration route = Num 180"
    by fastforce
  with gen show "\<exists>route. generateCyclingRoute ?E Israel Haifa = Inr route
      \<and> distance route = Num 60 \<and> estimatedDuration route = Num 180" by blast
next
  let ?segs = "[(Num 12000, Num 2400), (Num 13000, Num 2700)]"
  let ?E = "serviceWith (segmentsProvider ?segs)"
  let ?r1 = "segmentsAnswer ?segs [(35, 32), (35, 32 + 15 / 111)]"
  let ?r2 = "segmentsAnswer ?segs [(35, 32 + 15 / 111), (35, 32)]"
  have fixture: "generateCyclingRoute ?E Israel Haifa =
      cyclingRouteOf ?r1 (Num (sum_list [12000, 13000] / 1000))
        ?r2 (Num (sum_list [12000, 13000] / 1000))"
    by (rule cycling_segments_fixture) simp_all
  from cyclingRouteOf_segments[of "[(35, 32), (35, 32 + 15 / 111)]"
      "[(35, 32 + 15 / 111), (35, 32)]" ?segs]
  obtain route where gen: "generateCyclingRoute ?E Israel Haifa = Inr route"
    and dbg: "debugResponses route = [?r1, ?r2]"
    unfolding fixture by fastforce
  from cycling_duration_rule[OF gen] obtain r1 r2 f1 fs1 f2 fs2 where
    d: "debugResponses route = [r1, r2]"
    and f: "features r1 = f1 # fs1" "features r2 = f2 # fs2"
    and rule: "\<forall>ms1 ms2 ds1 ds2.
            map seg_distance (segments f1) = map Num ms1
            \<and> map seg_distance (segments f2) = map Num ms2
            \<and> map seg_duration (segments f1) = map Num ds1
            \<and> map seg_duration (segments f2) = map Num ds2 \<longrightarrow>
            distance route = Num (sum_list ms1 / 1000 + sum_list ms2 / 1000)
            \<and> estimatedDuration route =
                Num (if (sum_list ds1 + sum_list ds2) / 60 < 10
                        \<and> sum_list ms1 / 1000 + sum_list ms2 / 1000 > 20
                     then ((sum_list ms1 / 1000 + sum_list ms2 / 1000) / 20) * 60
                     else (sum_list ds1 + sum_list ds2) / 60)"
    by blast
  from d dbg have "r1 = ?r1" "r2 = ?r2" by simp_all
  with f have "map seg_distance (segments f1) = map Num [12000, 13000]
      \<and> map seg_distance (segments f2) = map Num [12000, 13000]
      \<and> map seg_duration (segments f1) = map Num [2400, 2700]
      \<and> map seg_duration (segments f2) = map Num [2400, 2700]"
    by (auto simp: segmentsAnswer_def)
  with rule have "distance route = Num 50 \<and> estimatedDuration route = Num 170"
    by fastforce
  with gen show "\<exists>route. generateCyclingRoute ?E Israel Haifa = Inr route
      \<and> distance route = Num 50 \<and> estimatedDuration route = Num 170" by blast
next
  let ?segs = "[(Num 4000, Num 100), (Num 4000, Num 140)]"
  let ?E = "serviceWith (segmentsProvider ?segs)"
  let ?r1 = "segmentsAnswer ?segs [(35, 32), (35, 32 + 15 / 111)]"
  let ?r2 = "segmentsAnswer ?segs [(35, 32 + 15 / 111), (35, 32)]"
  have fixture: "generateCyclingRoute ?E Israel Haifa =
      cyclingRouteOf ?r1 (Num (sum_list [4000, 4000] / 1000))
        ?r2 (Num (sum_list [4000, 4000] / 1000))"
    by (rule cycling_segments_fixture) simp_all
  from cyclingRouteOf_segments[of "[(35, 32), (35, 32 + 15 / 111)]"
      "[(35, 32 + 15 / 111), (35, 32)]" ?segs]
  obtain route where gen: "generateCyclingRoute ?E Israel Haifa = Inr route"
    and dbg: "debugResponses route = [?r1, ?r2]"
    unfolding fixture by fastforce
  from cycling_duration_rule[OF gen] obtain r1 r2 f1 fs1 f2 fs2 where
    d: "debugResponses route = [r1, r2]"
    and f: "features r1 = f1 # fs1" "features r2 = f2 # fs2"
    and rule: "\<forall>ms1 ms2 ds1 ds2.
            map seg_distance (segments f1) = map Num ms1
            \<and> map seg_distance (segments f2) = map Num ms2
            \<and> map seg_duration (segments f1) = map Num ds1
            \<and> map seg_duration (segments f2) = map Num ds2 \<longrightarrow>
            distance route = Num (sum_list ms1 / 1000 + sum_list ms2 / 1000)
            \<and> estimatedDuration route =
                Num (if (sum_list ds1 + sum_list ds2) / 60 < 10
                        \<and> sum_list ms1 / 1000 + sum_list ms2 / 1000 > 20
                     then ((sum_list ms1 / 1000 + sum_list ms2 / 1000) / 20) * 60
                     else (sum_list ds1 + sum_list ds2) / 60)"
    by blast
  from d dbg have "r1 = ?r1" "r2 = ?r2" by simp_all
  with f have "map seg_distance (segments f1) = map Num [4000, 4000]
      \<and> map seg_distance (segments f2) = map Num [4000, 4000]
      \<and> map seg_duration (segments f1) = map Num [100, 140]
      \<and> map seg_duration (segments f2) = map Num [100, 140]"
    by (auto simp: segmentsAnswer_def)
  with rule have "distance route = Num 16 \<and> estimatedDuration route = Num 8"
    by fastforce
  with gen show "\<exists>route. generateCyclingRoute ?E Israel Haifa = Inr route
      \<and> distance route = Num 16 \<and> estimatedDuration route = Num 8" by blast
qed

section \<open>The waypoint ring and the local distance check\<close>

text \<open>
  C7. For every target distance the number of points is between 6 and 10; the seed
  waypoints are the ring of that many points with radius \<open>baseRadiusKm / 111\<close> degrees.
  A ring of \<open>n\<close> points has \<open>n + 1\<close> entries: entry \<open>i < n\<close> lies at angle
  \<open>2 * pi * i / n\<close> on the circle of the given radius around the center, and the last
  entry repeats the first. After an attempt outside 5 to 15 km the loop's new waypoints
  are the ring of its new current radius.
\<close>

theorem walking_waypoints_are_a_closed_ring:
  "6 \<le> numPoints t \<and> numPoints t \<le> 10
   \<and> walkingWaypoints cLat cLng t =
       ringWaypoints cLat cLng (baseRadiusKm t / 111) (numPoints t)
   \<and> (0 < n \<longrightarrow>
        (\<exists>ws. ringWaypoints cLat cLng r n = Inr ws
           \<and> length ws = n + 1
           \<and> ws ! n = ws ! 0
           \<and> (\<forall>i<n. ws ! i = (cLng + r * sin (2 * pi * real i / real n),
                               cLat + r * cos (2 * pi * real i / real n)))))
   \<and> (0 < n \<and> features resp = f # fs \<and> sumDistance (segments f) = Num m
        \<and> \<not> (5 \<le> m / 1000 \<and> m / 1000 \<le> 15) \<longrightarrow>
        (\<exists>st'. walkingTry cLat cLng n resp st = Inr (Next st')
           \<and> ringWaypoints cLat cLng (currentRadius st' / 111) n = Inr (currentWaypoints st')))"
proof (intro conjI impI)
  show "6 \<le> numPoints t" "numPoints t \<le> 10" by (simp_all add: numPoints_def)
  show "walkingWaypoints cLat cLng t = ringWaypoints cLat cLng (baseRadiusKm t / 111) (numPoints t)"
    by (simp add: walkingWaypoints_def)
next
  assume n: "0 < n"
  let ?ws = "ring cLat cLng r n"
  have "?ws ! i = (cLng + r * sin (2 * pi * real i / real n),
                   cLat + r * cos (2 * pi * real i / real n))" if "i < n" for i
    using that by (simp add: nth_append ringPoint_def Let_def)
  moreover have "?ws ! n = ?ws ! 0" using n by (simp add: nth_append)
  ultimately show "\<exists>ws. ringWaypoints cLat cLng r n = Inr ws
           \<and> length ws = n + 1
           \<and> ws ! n = ws ! 0
           \<and> (\<forall>i<n. ws ! i = (cLng + r * sin (2 * pi * real i / real n),
                               cLat + r * cos (2 * pi * real i / real n)))"
    using n by (simp add: ringWaypoints_Inr)
next
  assume a: "0 < n \<and> features resp = f # fs \<and> sumDistance (segments f) = Num m
        \<and> \<not> (5 \<le> m / 1000 \<and> m / 1000 \<le> 15)"
  then show "\<exists>st'. walkingTry cLat cLng n resp st = Inr (Next st')
           \<and> ringWaypoints cLat cLng (currentRadius st' / 111) n = Inr (currentWaypoints st')"
    by (auto simp: walkingTry_measured ringWaypoints_Inr Let_def)
qed

theorem walking_waypoints_are_a_closed_ring_witness:
  "numPoints 10 = 10
   \<and> (\<exists>ws. walkingWaypoints 32 35 10 = Inr ws \<and> length ws = 11 \<and> ws ! 10 = ws ! 0)"
  using walking_waypoints_are_a_closed_ring [where t = 10 and cLat = 32 and cLng = 35
      and n = 10 and r = "baseRadiusKm 10 / 111" and resp = "routeAnswer 18000 9000 []"
      and f = "\<lparr>segments = [\<lparr>seg_distance = Num 18000, seg_duration = Num 9000,
                                 seg_elevation_gain = Num 0\<rparr>],
                summary_duration = None, coordinates = []\<rparr>"
      and fs = "[]"
      and st = "\<lparr>currentWaypoints = [], currentRadius = baseRadiusKm 10,
                 currentProfile = ''foot-walking'', httpRequests = 0, attemptLog = []\<rparr>"]
  by (auto simp: numPoints_10)

text \<open>
  Against C8 as stated. A list of three valid points whose second and third points are
  1.9 degrees (about 211 km) apart, the first two being close: the request is sent to the
  provider.
\<close>

theorem far_later_pair_is_sent:
  "callOpenRouteService (serviceWith (echoProvider (steadyMetres 10000) 7200)) 0
      [(35, 32), (35.1, 32), (37, 32)] ''foot-walking'' 2
     = (Inr (routeAnswer 10000 7200 [(35, 32), (35.1, 32), (37, 32)]), 1)
   \<and> pointsTooFarApart [(35.1, 32), (37, 32)]"
proof -
  let ?E = "serviceWith (echoProvider (steadyMetres 10000) 7200)"
  have near: "\<not> pointsTooFarApart [(35, 32), (35.1, 32), (37, 32)]"
    by (rule pair_near[where d = "0.36"]) simp_all
  have "callOpenRouteService ?E 0 [(35, 32), (35.1, 32), (37, 32)] ''foot-walking'' 2
     = (Inr (routeAnswer 10000 7200 [(35, 32), (35.1, 32), (37, 32)]), Suc 0)"
    by (rule callOpenRouteService_resolved[OF _ near])
      (simp_all add: serviceWith_def echoProvider_def)
  moreover have "pointsTooFarApart [(35.1, 32), (37, 32)]"
  proof -
    have "sqrt ((19 / 10)\<^sup>2) = \<bar>19 / 10\<bar>" by (simp only: real_sqrt_abs)
    then show ?thesis by (simp add: pointsTooFarApart_def)
  qed
  ultimately show ?thesis by simp
qed

text \<open>
  C8, as amended. Whether \<^verbatim>\<open>callOpenRouteService\<close> takes a list for too far apart is
  decided by its first two points alone: by their Euclidean distance in degrees times 111
  being above 80. When it is, the call throws before any HTTP request (the request counter is
  unchanged), with or without an API key. When it is not, a key is configured and every
  coordinate passes the range checks, the request loop is entered and at least one HTTP
  request is sent, whatever the distances between the later points.
\<close>

theorem far_first_pair_rejected_locally:
  "pointsTooFarApart ((lng1, lat1) # (lng2, lat2) # rest)
     = (sqrt ((lat2 - lat1)\<^sup>2 + (lng2 - lng1)\<^sup>2) * 111 > 80)
   \<and> pointsTooFarApart ((lng1, lat1) # (lng2, lat2) # rest)
     = pointsTooFarApart [(lng1, lat1), (lng2, lat2)]
   \<and> (sqrt ((lat2 - lat1)\<^sup>2 + (lng2 - lng1)\<^sup>2) * 111 > 80 \<longrightarrow>
        callOpenRouteService E k ((lng1, lat1) # (lng2, lat2) # rest) profile maxRetries
          = (Inl (if apiKey E then PointsTooFarApart else ApiKeyNotConfigured), k))
   \<and> (apiKey E \<and> sqrt ((lat2 - lat1)\<^sup>2 + (lng2 - lng1)\<^sup>2) * 111 \<le> 80
        \<and> validateCoordinates 0 ((lng1, lat1) # (lng2, lat2) # rest) = None \<longrightarrow>
        callOpenRouteService E k ((lng1, lat1) # (lng2, lat2) # rest) profile maxRetries
          = requestLoop E profile ((lng1, lat1) # (lng2, lat2) # rest) maxRetries 0 k
        \<and> k < snd (callOpenRouteService E k ((lng1, lat1) # (lng2, lat2) # rest) profile
                     maxRetries))"
proof (intro conjI impI)
  show far: "pointsTooFarApart ((lng1, lat1) # (lng2, lat2) # rest)
     = (sqrt ((lat2 - lat1)\<^sup>2 + (lng2 - lng1)\<^sup>2) * 111 > 80)"
    by (simp add: pointsTooFarApart_def)
  show "pointsTooFarApart ((lng1, lat1) # (lng2, lat2) # rest)
     = pointsTooFarApart [(lng1, lat1), (lng2, lat2)]"
    by (simp add: pointsTooFarApart_def)
  {
    assume "sqrt ((lat2 - lat1)\<^sup>2 + (lng2 - lng1)\<^sup>2) * 111 > 80"
    with far show "callOpenRouteService E k ((lng1, lat1) # (lng2, lat2) # rest) profile maxRetries
          = (Inl (if apiKey E then PointsTooFarApart else ApiKeyNotConfigured), k)"
      by (simp add: callOpenRouteService_def)
  }
  {
    assume a: "apiKey E \<and> sqrt ((lat2 - lat1)\<^sup>2 + (lng2 - lng1)\<^sup>2) * 111 \<le> 80
        \<and> validateCoordinates 0 ((lng1, lat1) # (lng2, lat2) # rest) = None"
    with far show call: "callOpenRouteService E k ((lng1, lat1) # (lng2, lat2) # rest) profile
          maxRetries
          = requestLoop E profile ((lng1, lat1) # (lng2, lat2) # rest) maxRetries 0 k"
      by (simp add: callOpenRouteService_def)
    show "k < snd (callOpenRouteService E k ((lng1, lat1) # (lng2, lat2) # rest) profile
                     maxRetries)"
      unfolding call by (rule requestLoop_sends) simp
  }
qed

text \<open>
  Two lists of three valid points. In the first the first two points are 2 degrees apart:
  the call throws and no request is counted. In the second the first two points are 0.1
  degrees apart and the last two 1.9 degrees: a request is counted.
\<close>

theorem far_first_pair_rejected_locally_witness:
  "callOpenRouteService (serviceWith (echoProvider (steadyMetres 10000) 7200)) 0
      [(35, 32), (37, 32), (37.1, 32)] ''foot-walking'' 2 = (Inl PointsTooFarApart, 0)
   \<and> 0 < snd (callOpenRouteService (serviceWith (echoProvider (steadyMetres 10000) 7200)) 0
                [(35, 32), (35.1, 32), (37, 32)] ''foot-walking'' 2)"
proof
  let ?E = "serviceWith (echoProvider (steadyMetres 10000) 7200)"
  have "sqrt ((32 - 32)\<^sup>2 + (37 - 35)\<^sup>2) * 111 > (80::real)"
    by (simp only: real_sqrt_abs diff_self zero_power2 add_0) simp
  with far_first_pair_rejected_locally[where E = ?E and ?lng1.0 = 35 and ?lat1.0 = 32
      and ?lng2.0 = 37 and ?lat2.0 = 32 and rest = "[(37.1, 32)]" and k = 0
      and profile = "''foot-walking''" and maxRetries = 2]
  show "callOpenRouteService ?E 0 [(35, 32), (37, 32), (37.1, 32)] ''foot-walking'' 2
      = (Inl PointsTooFarApart, 0)"
    by (simp add: serviceWith_def)
next
  let ?E = "serviceWith (echoProvider (steadyMetres 10000) 7200)"
  have "\<not> pointsTooFarApart [(35, 32), (35.1, 32), (37, 32)]"
    by (rule pair_near[where d = "0.36"]) simp_all
  then have near: "sqrt ((32 - 32)\<^sup>2 + (35.1 - 35)\<^sup>2) * 111 \<le> (80::real)"
    unfolding pointsTooFarApart_def list.case prod.case by (simp only: not_less)
  have key: "apiKey ?E" by (simp add: serviceWith_def)
  have valid: "validateCoordinates 0 [(35, 32), (35.1, 32), (37, 32)] = None" by simp
  from far_first_pair_rejected_locally[where E = ?E and ?lng1.0 = 35 and ?lat1.0 = 32
      and ?lng2.0 = "35.1" and ?lat2.0 = 32 and rest = "[(37, 32)]" and k = 0
      and profile = "''foot-walking''" and maxRetries = 2] key near valid
  show "0 < snd (callOpenRouteService ?E 0 [(35, 32), (35.1, 32), (37, 32)] ''foot-walking'' 2)"
    by blast
qed

end
